theory Spec2Isabelle
  imports Complex_Main "HOL-Library.AList"
begin

section \<open>JavaScript values\<close>

text \<open>
  The scalar values of JavaScript; arrays and objects do not occur in the fields modelled
  here (way-points and steps travel as JSON text). A JavaScript number is an IEEE 754
  binary64 value: a finite one is represented by the exact rational it denotes, next to
  the three special values \<open>NaN\<close>, \<open>-Infinity\<close> and \<open>Infinity\<close>; the two zeros are
  not told apart. An arithmetic operation returns the double nearest to the exact
  result (\<open>round_double\<close> below). A string is the sequence of the bytes of its UTF-8
  encoding.
\<close>

datatype jsnum = NaN | NegInf | Fin rat | PosInf

datatype jsval =
    Undefined
  | Null
  | Bool bool
  | Num jsnum
  | Str string

text \<open>\<open>!v\<close> is true exactly for the falsy values.\<close>

fun truthy :: "jsval \<Rightarrow> bool" where
  "truthy Undefined = False"
| "truthy Null = False"
| "truthy (Bool b) = b"
| "truthy (Num n) = (n \<noteq> NaN \<and> n \<noteq> Fin 0)"
| "truthy (Str s) = (s \<noteq> [])"

text \<open>\<open>a || b\<close>\<close>

definition js_or :: "jsval \<Rightarrow> jsval \<Rightarrow> jsval" where
  "js_or a b = (if truthy a then a else b)"

text \<open>\<open>s.split(sep)\<close> for a one-character separator: never the empty array.\<close>

fun split :: "char \<Rightarrow> string \<Rightarrow> string list" where
  "split sep [] = [[]]"
| "split sep (c # cs) =
     (if c = sep then [] # split sep cs
      else (case split sep cs of
              [] \<Rightarrow> [[c]]
            | x # xs \<Rightarrow> (c # x) # xs))"

text \<open>\<open>xs.join(sep)\<close> on an array of strings.\<close>

fun join :: "string \<Rightarrow> string list \<Rightarrow> string" where
  "join sep [] = []"
| "join sep [x] = x"
| "join sep (x # y # ys) = x @ sep @ join sep (y # ys)"

text \<open>
  \<open>instruction.replace(/<[^>]*>/g, '')\<close>: every \<open><\<close> that is followed somewhere by a
  \<open>>\<close> is removed together with everything up to the first such \<open>>\<close>.
\<close>

function strip_tags :: "string \<Rightarrow> string" where
  "strip_tags [] = []"
| "strip_tags (c # cs) =
     (if c = CHR ''<'' \<and> CHR ''>'' \<in> set cs
      then strip_tags (tl (dropWhile (\<lambda>x. x \<noteq> CHR ''>'') cs))
      else c # strip_tags cs)"
  by pat_completeness auto
termination
proof (relation "measure length")
  show "wf (measure (length :: string \<Rightarrow> nat))" by simp
next
  fix c :: char and cs :: string
  have "length (tl (dropWhile (\<lambda>x. x \<noteq> CHR ''>'') cs)) \<le> length cs"
    using length_dropWhile_le [of "\<lambda>x. x \<noteq> CHR ''>''" cs] by simp
  then show "(tl (dropWhile (\<lambda>x. x \<noteq> CHR ''>'') cs), c # cs) \<in> measure length"
    by simp
next
  fix c :: char and cs :: string
  show "(cs, c # cs) \<in> measure length" by simp
qed

subsection \<open>Number formatting and rounding\<close>

text \<open>Decimal digits of a natural number, most significant first.\<close>

fun show_nat :: "nat \<Rightarrow> string" where
  "show_nat n =
     (if n < 10 then [''0123456789'' ! n]
      else show_nat (n div 10) @ [''0123456789'' ! (n mod 10)])"

declare show_nat.simps [simp del]

text \<open>
  Rounding to binary64, round-to-nearest with ties to even. For \<open>a > 0\<close>,
  \<open>significand_ulp a\<close> is the pair \<open>(sig, ulp)\<close> with \<open>a = sig * ulp\<close>, \<open>ulp\<close> a power of
  two and \<open>2^52 \<le> sig < 2^53\<close>: \<open>ulp\<close> is the spacing of the normal doubles around
  \<open>a\<close>. Below the normal range the spacing stays at \<open>2^-1074\<close>, and a result that
  reaches \<open>2^1024\<close> overflows to an infinity.
\<close>

function halve :: "rat \<Rightarrow> rat \<Rightarrow> rat \<times> rat" where
  "halve y u = (if 2 ^ 53 \<le> y then halve (y / 2) (u * 2) else (y, u))"
  by pat_completeness auto
termination
proof (relation "measure (\<lambda>(y, u). nat \<lfloor>y\<rfloor>)")
  show "wf (measure (\<lambda>(y :: rat, u :: rat). nat \<lfloor>y\<rfloor>))" by simp
next
  fix y u :: rat
  assume "2 ^ 53 \<le> y"
  then have "2 \<le> y" by simp
  then have "y / 2 \<le> y - 1" by simp
  then have "\<lfloor>y / 2\<rfloor> \<le> \<lfloor>y - 1\<rfloor>" by (rule floor_mono)
  moreover from \<open>2 \<le> y\<close> have "2 \<le> \<lfloor>y\<rfloor>" by (simp add: le_floor_iff)
  ultimately show "((y / 2, u * 2), (y, u)) \<in> measure (\<lambda>(y, u). nat \<lfloor>y\<rfloor>)"
    by simp
qed

function raise :: "rat \<Rightarrow> rat \<Rightarrow> rat \<times> rat" where
  "raise y u = (if 0 < y \<and> y < 2 ^ 52 then raise (y * 2) (u / 2) else (y, u))"
  by pat_completeness auto
termination
proof (relation "measure (\<lambda>(y, u). nat \<lfloor>2 ^ 52 / y\<rfloor>)")
  show "wf (measure (\<lambda>(y :: rat, u :: rat). nat \<lfloor>2 ^ 52 / y\<rfloor>))" by simp
next
  fix y u :: rat
  assume a: "0 < y \<and> y < 2 ^ 52"
  define z where "z = 2 ^ 52 / y"
  from a have z1: "1 < z" by (simp add: z_def)
  then have f1: "1 \<le> \<lfloor>z\<rfloor>" by (simp add: le_floor_iff)
  have "z < of_int \<lfloor>z\<rfloor> + 1" by linarith
  with f1 have "z / 2 < of_int \<lfloor>z\<rfloor>"
  proof -
    from f1 have "(1::rat) \<le> of_int \<lfloor>z\<rfloor>" by (metis of_int_1 of_int_le_iff)
    with \<open>z < of_int \<lfloor>z\<rfloor> + 1\<close> show ?thesis by linarith
  qed
  then have "\<lfloor>z / 2\<rfloor> < \<lfloor>z\<rfloor>" by (simp add: floor_less_iff)
  moreover have "2 ^ 52 / (y * 2) = z / 2" by (simp add: z_def)
  ultimately show "((y * 2, u / 2), (y, u)) \<in> measure (\<lambda>(y, u). nat \<lfloor>2 ^ 52 / y\<rfloor>)"
    using f1 by (simp add: z_def)
qed

declare halve.simps [simp del] raise.simps [simp del]

definition significand_ulp :: "rat \<Rightarrow> rat \<times> rat" where
  "significand_ulp a = (case halve a 1 of (y, u) \<Rightarrow> raise y u)"

text \<open>The integer nearest to \<open>y\<close>, the even one of the two when \<open>y\<close> lies half-way.\<close>

definition round_even :: "rat \<Rightarrow> int" where
  "round_even y =
     (let f = \<lfloor>y\<rfloor>; r = y - of_int f
      in if r < 1 / 2 then f else if 1 / 2 < r then f + 1 else if even f then f else f + 1)"

definition least_ulp :: rat where
  "least_ulp = 1 / 2 ^ 1074"

definition overflow_bound :: rat where
  "overflow_bound = 2 ^ 1024"

definition round_double :: "rat \<Rightarrow> jsnum" where
  "round_double x =
     (if x = 0 then Fin 0
      else (case significand_ulp \<bar>x\<bar> of
              (sig, ulp) \<Rightarrow>
                (let ulp' = max ulp least_ulp;
                     r = of_int (round_even (\<bar>x\<bar> / ulp')) * ulp'
                 in if overflow_bound \<le> r then (if x < 0 then NegInf else PosInf)
                    else Fin (if x < 0 then - r else r))))"

text \<open>
  \<open>x.toFixed(1)\<close> on a finite \<open>x\<close> below \<open>10^21\<close> in absolute value picks the integer \<open>n\<close>
  for which \<open>n / 10\<close> is closest to the exact value of the double \<open>x\<close>, the larger one when
  two are equally close, and prints it with one fractional digit; a negative \<open>x\<close> is
  printed as \<open>-\<close> followed by the rendering of \<open>-x\<close>. \<open>round_tenths\<close> is that \<open>n\<close> for
  \<open>x \<ge> 0\<close>. From \<open>10^21\<close> on the result is that of \<open>Number::toString\<close>, which is not
  spelled out here: \<open>ToString x\<close> stands for it.
\<close>

definition round_tenths :: "rat \<Rightarrow> int" where
  "round_tenths x = \<lfloor>x * 10 + 1 / 2\<rfloor>"

definition show_tenths :: "int \<Rightarrow> string" where
  "show_tenths n = show_nat (nat n div 10) @ ''.'' @ show_nat (nat n mod 10)"

datatype number_text = Text string | ToString rat

fun toFixed1 :: "jsnum \<Rightarrow> number_text" where
  "toFixed1 NaN = Text ''NaN''"
| "toFixed1 PosInf = Text ''Infinity''"
| "toFixed1 NegInf = Text ''-Infinity''"
| "toFixed1 (Fin x) =
     (if 10 ^ 21 \<le> \<bar>x\<bar> then ToString x
      else if x < 0 then Text (''-'' @ show_tenths (round_tenths (- x)))
      else Text (show_tenths (round_tenths x)))"

text \<open>
  \<open>x / d\<close> for a finite constant \<open>d > 0\<close>: the double nearest to the exact quotient.
\<close>

fun js_div :: "jsnum \<Rightarrow> rat \<Rightarrow> jsnum" where
  "js_div (Fin x) d = round_double (x / d)"
| "js_div n d = n"

fun Math_ceil :: "jsnum \<Rightarrow> jsnum" where
  "Math_ceil (Fin x) = Fin (of_int \<lceil>x\<rceil>)"
| "Math_ceil n = n"

text \<open>\<open>x < y\<close> on numbers: false as soon as one side is \<open>NaN\<close>.\<close>

fun js_less :: "jsnum \<Rightarrow> jsnum \<Rightarrow> bool" where
  "js_less NaN y = False"
| "js_less x NaN = False"
| "js_less x NegInf = False"
| "js_less NegInf y = True"
| "js_less PosInf y = False"
| "js_less (Fin a) PosInf = True"
| "js_less (Fin a) (Fin b) = (a < b)"

text \<open>
  \<open>Math.min(...xs)\<close> starts from \<open>Infinity\<close>, returns \<open>NaN\<close> as soon as an argument is
  \<open>NaN\<close>, and otherwise keeps the smaller value; \<open>Math.max\<close> is the mirror image.
\<close>

definition min_step :: "jsnum \<Rightarrow> jsnum \<Rightarrow> jsnum" where
  "min_step lowest number =
     (if lowest = NaN \<or> number = NaN then NaN
      else if js_less number lowest then number else lowest)"

definition max_step :: "jsnum \<Rightarrow> jsnum \<Rightarrow> jsnum" where
  "max_step highest number =
     (if highest = NaN \<or> number = NaN then NaN
      else if js_less highest number then number else highest)"

definition Math_min :: "jsnum list \<Rightarrow> jsnum" where
  "Math_min xs = foldl min_step PosInf xs"

definition Math_max :: "jsnum list \<Rightarrow> jsnum" where
  "Math_max xs = foldl max_step NegInf xs"

section \<open>The mapping provider's response and its normalisation (services/amapService.js)\<close>

text \<open>
  The provider payload, with the fields \<open>parseRealRouteData\<close> reads. A field the code
  guards (\<open>data.route\<close>, \<open>route.paths\<close>, the polylines) is optional; a field it feeds to
  \<open>||\<close> is a JavaScript value; \<open>distance\<close> and \<open>duration\<close> are given by the number that
  \<open>/\<close> sees. \<open>path.steps\<close> and \<open>step.instruction\<close> are read unguarded and are
  present in every response that carries a path.
\<close>

record raw_step =
  step_instruction :: string
  step_distance :: jsnum
  step_duration :: jsnum
  step_road :: jsval
  step_orientation :: jsval
  step_polyline :: "string option"

record raw_path =
  path_distance :: jsnum
  path_duration :: jsnum
  path_tolls :: jsval
  path_traffic_lights :: jsval
  path_polyline :: "string option"
  path_steps :: "raw_step list"

record raw_route =
  paths :: "raw_path list option"

record provider_response =
  status :: string
  info :: string
  route :: "raw_route option"

text \<open>
  The failures of the normaliser. \<open>NoPathFoundError\<close> is the \<open>Error\<close> thrown by
  \<open>parseRealRouteData\<close> when no path is present, \<open>ProviderError\<close> the one thrown by
  \<open>planDrivingRoute\<close> for a status other than \<open>'1'\<close>; it carries \<open>data.info\<close>.
\<close>

datatype plan_error = NoPathFoundError | ProviderError string

record lnglat =
  lng :: jsnum
  lat :: jsnum

record bounding_box =
  southwest :: lnglat
  northeast :: lnglat

record plan_step =
  ps_instruction :: string
  ps_distance :: number_text
  ps_time :: jsnum
  ps_road :: jsval
  ps_orientation :: jsval

record route_plan =
  rp_distance :: number_text
  rp_time :: jsnum
  rp_tolls :: jsval
  rp_traffic_lights :: jsval
  rp_steps :: "plan_step list"
  rp_polyline :: "(jsnum \<times> jsnum) list"
  rp_bounds :: "bounding_box option"
  rp_source :: string

text \<open>
  \<open>parseFloat\<close> and \<open>Number\<close> belong to the JavaScript runtime, not to this repository;
  the decoder takes them as parameters. A point without a comma leaves \<open>lat\<close>
  undefined: \<open>parseFloat(undefined)\<close> is \<open>NaN\<close>, and \<open>Math.min\<close>/\<open>Math.max\<close> coerce
  \<open>undefined\<close> to \<open>NaN\<close>.
\<close>

definition decodePolyline :: "(string \<Rightarrow> jsnum) \<Rightarrow> jsval \<Rightarrow> (jsnum \<times> jsnum) list" where
  "decodePolyline parseFloat polyline =
     (case polyline of
        Str s \<Rightarrow>
          if s = [] then []
          else map (\<lambda>point.
                 (case split CHR '','' point of
                    a # b # rest \<Rightarrow> (parseFloat a, parseFloat b)
                  | [a] \<Rightarrow> (parseFloat a, NaN)
                  | [] \<Rightarrow> (NaN, NaN)))
               (split CHR '';'' s)
      | _ \<Rightarrow> [])"

definition bounds_points :: "(string \<Rightarrow> jsnum) \<Rightarrow> string \<Rightarrow> lnglat list" where
  "bounds_points Number s =
     map (\<lambda>point.
       (case map Number (split CHR '','' point) of
          a # b # rest \<Rightarrow> \<lparr>lng = a, lat = b\<rparr>
        | [a] \<Rightarrow> \<lparr>lng = a, lat = NaN\<rparr>
        | [] \<Rightarrow> \<lparr>lng = NaN, lat = NaN\<rparr>))
     (split CHR '';'' s)"

definition calculateBounds :: "(string \<Rightarrow> jsnum) \<Rightarrow> jsval \<Rightarrow> bounding_box option" where
  "calculateBounds Number polyline =
     (case polyline of
        Str s \<Rightarrow>
          if s = [] then None
          else
            (let points = bounds_points Number s;
                 lngs = map lng points;
                 lats = map lat points
             in Some \<lparr>southwest = \<lparr>lng = Math_min lngs, lat = Math_min lats\<rparr>,
                       northeast = \<lparr>lng = Math_max lngs, lat = Math_max lats\<rparr>\<rparr>)
      | _ \<Rightarrow> None)"

text \<open>
  The geometry that is decoded: the path's own polyline, or, when that is missing or
  empty, the steps' fragments that pass \<open>p && p.length > 0\<close>, joined with \<open>;\<close>.
\<close>

definition aggregatedPolyline :: "raw_path \<Rightarrow> string" where
  "aggregatedPolyline path =
     (case path_polyline path of
        None \<Rightarrow>
          join '';'' (map the (filter (\<lambda>p. p \<noteq> None \<and> p \<noteq> Some [])
                                  (map step_polyline (path_steps path))))
      | Some p \<Rightarrow>
          if p = []
          then join '';'' (map the (filter (\<lambda>p. p \<noteq> None \<and> p \<noteq> Some [])
                                         (map step_polyline (path_steps path))))
          else p)"

definition source_label :: string where
  "source_label =
     [CHR 0xE9, CHR 0xAB, CHR 0x98, CHR 0xE5, CHR 0xBE, CHR 0xB7, CHR 0xE5, CHR 0x9C, CHR 0xB0,
      CHR 0xE5, CHR 0x9B, CHR 0xBE, CHR 0xE7, CHR 0x9C, CHR 0x9F, CHR 0xE5, CHR 0xAE, CHR 0x9E,
      CHR 0x41, CHR 0x50, CHR 0x49]"

definition parse_step :: "raw_step \<Rightarrow> plan_step" where
  "parse_step step =
     \<lparr>ps_instruction = strip_tags (step_instruction step),
      ps_distance = toFixed1 (js_div (step_distance step) 1000),
      ps_time = Math_ceil (js_div (step_duration step) 60),
      ps_road = js_or (step_road step) (Str []),
      ps_orientation = js_or (step_orientation step) (Str [])\<rparr>"

definition parseRealRouteData ::
  "(string \<Rightarrow> jsnum) \<Rightarrow> (string \<Rightarrow> jsnum) \<Rightarrow> provider_response \<Rightarrow> plan_error + route_plan" where
  "parseRealRouteData parseFloat Number data =
     (case route data of
        None \<Rightarrow> Inl NoPathFoundError
      | Some r \<Rightarrow>
          (case paths r of
             None \<Rightarrow> Inl NoPathFoundError
           | Some [] \<Rightarrow> Inl NoPathFoundError
           | Some (path # others) \<Rightarrow>
               Inr \<lparr>rp_distance = toFixed1 (js_div (path_distance path) 1000),
                    rp_time = Math_ceil (js_div (path_duration path) 60),
                    rp_tolls = js_or (path_tolls path) (Num (Fin 0)),
                    rp_traffic_lights = js_or (path_traffic_lights path) (Num (Fin 0)),
                    rp_steps = map parse_step (path_steps path),
                    rp_polyline = decodePolyline parseFloat (Str (aggregatedPolyline path)),
                    rp_bounds = calculateBounds Number (Str (aggregatedPolyline path)),
                    rp_source = source_label\<rparr>))"

text \<open>
  What \<open>planDrivingRoute\<close> does with the provider's answer once it has arrived: a status
  other than \<open>'1'\<close> is an error, anything else is handed to \<open>parseRealRouteData\<close>.
\<close>

definition planDrivingRoute_response ::
  "(string \<Rightarrow> jsnum) \<Rightarrow> (string \<Rightarrow> jsnum) \<Rightarrow> provider_response \<Rightarrow> plan_error + route_plan" where
  "planDrivingRoute_response parseFloat Number data =
     (if status data \<noteq> ''1'' then Inl (ProviderError (info data))
      else parseRealRouteData parseFloat Number data)"

text \<open>
  On a plain decimal literal (optional \<open>-\<close>, digits, optionally \<open>.\<close> and digits), which
  is how the provider writes coordinates, \<open>parseFloat\<close> and \<open>Number\<close> both return the
  number written. \<open>decimal_literal\<close> computes it and is \<open>NaN\<close> on every other string; it
  instantiates the two runtime parameters in the evaluated examples.
\<close>

definition is_digit :: "char \<Rightarrow> bool" where
  "is_digit c = (48 \<le> (of_char c :: nat) \<and> (of_char c :: nat) \<le> 57)"

definition digits_val :: "string \<Rightarrow> nat" where
  "digits_val ds = foldl (\<lambda>a c. 10 * a + (of_char c - 48)) 0 ds"

definition decimal_literal :: "string \<Rightarrow> jsnum" where
  "decimal_literal s =
     (let neg = (s \<noteq> [] \<and> hd s = CHR ''-'');
          body = (if neg then tl s else s);
          ip = takeWhile (\<lambda>c. c \<noteq> CHR ''.'') body;
          fp = drop 1 (dropWhile (\<lambda>c. c \<noteq> CHR ''.'') body)
      in if ip \<noteq> [] \<and> list_all is_digit ip \<and> list_all is_digit fp
            \<and> (fp \<noteq> [] \<or> CHR ''.'' \<notin> set body)
         then Fin ((if neg then - 1 else 1) *
                   (of_nat (digits_val ip) + of_nat (digits_val fp) / 10 ^ length fp))
         else NaN)"

section \<open>The relational store (server.js, the part imported as models/database.js)\<close>

subsection \<open>Objects, rows and the schema\<close>

text \<open>
  A JavaScript object with scalar properties is a list of key-value pairs in insertion
  order; reading a property that is not there gives \<open>undefined\<close>. A row returned by
  \<open>SELECT *\<close> is such an object, with one property per column.
\<close>

type_synonym obj = "(string \<times> jsval) list"

definition property :: "obj \<Rightarrow> string \<Rightarrow> jsval" where
  "property ob k = (case map_of ob k of None \<Rightarrow> Undefined | Some v \<Rightarrow> v)"

text \<open>\<open>{...base, ...extra}\<close>\<close>

definition spread :: "obj \<Rightarrow> obj \<Rightarrow> obj" where
  "spread base extra = foldl (\<lambda>ob (k, v). AList.update k v ob) base extra"

text \<open>A destructuring default \<open>{ k = d } = ob\<close> applies to \<open>undefined\<close> only.\<close>

definition default_to :: "jsval \<Rightarrow> jsval \<Rightarrow> jsval" where
  "default_to v d = (if v = Undefined then d else v)"

text \<open>The result of \<open>JSON.parse\<close>, which the runtime provides (a parameter below).\<close>

datatype json =
    JNull
  | JBool bool
  | JNum rat
  | JStr string
  | JArr "json list"
  | JObj "(string \<times> json) list"

text \<open>
  What the driver stores for a bound parameter: \<open>undefined\<close> and \<open>null\<close> become \<open>NULL\<close>,
  a boolean becomes 0 or 1, \<open>NaN\<close> is stored as \<open>NULL\<close>. \<open>NULL\<close> is read back as \<open>null\<close>.
  (Column affinity, which turns a numeric text into a number, is not modelled.)
\<close>

fun bind :: "jsval \<Rightarrow> jsval" where
  "bind Undefined = Null"
| "bind (Bool b) = Num (Fin (if b then 1 else 0))"
| "bind (Num NaN) = Null"
| "bind v = v"

text \<open>SQL equality in a \<open>WHERE\<close> clause: never true when a side is \<open>NULL\<close>.\<close>

definition sql_eq :: "jsval \<Rightarrow> jsval \<Rightarrow> bool" where
  "sql_eq a b = (a \<noteq> Null \<and> b \<noteq> Null \<and> a = b)"

datatype col_default = NoDefault | Literal jsval | CurrentTimestamp

record column =
  col_name :: string
  not_null :: bool
  dflt :: col_default

definition col :: "string \<Rightarrow> bool \<Rightarrow> col_default \<Rightarrow> column" where
  "col n nn d = \<lparr>col_name = n, not_null = nn, dflt = d\<rparr>"

text \<open>\<open>CREATE TABLE routes\<close> and \<open>CREATE TABLE route_markers\<close> of \<open>createTables\<close>.\<close>

definition routes_table :: "column list" where
  "routes_table =
     [col ''id'' False NoDefault,
      col ''name'' True NoDefault,
      col ''description'' False NoDefault,
      col ''route_type'' False (Literal (Str ''driving'')),
      col ''city'' False NoDefault,
      col ''district'' False NoDefault,
      col ''district_type'' False NoDefault,
      col ''intersections'' False (Literal (Num (Fin 0))),
      col ''right_turns'' False (Literal (Num (Fin 0))),
      col ''left_turns'' False (Literal (Num (Fin 0))),
      col ''u_turns'' False (Literal (Num (Fin 0))),
      col ''roundabouts'' False (Literal (Num (Fin 0))),
      col ''special_traffic_lights'' False (Literal (Num (Fin 0))),
      col ''special_intersections'' False (Literal (Num (Fin 0))),
      col ''start_lng'' True NoDefault,
      col ''start_lat'' True NoDefault,
      col ''end_lng'' True NoDefault,
      col ''end_lat'' True NoDefault,
      col ''waypoints'' False NoDefault,
      col ''distance'' False NoDefault,
      col ''duration'' False NoDefault,
      col ''polyline'' False NoDefault,
      col ''steps'' False NoDefault,
      col ''tolls'' False (Literal (Num (Fin 0))),
      col ''traffic_lights'' False (Literal (Num (Fin 0))),
      col ''created_by'' False (Literal (Str ''system'')),
      col ''created_at'' False CurrentTimestamp,
      col ''updated_at'' False CurrentTimestamp]"

definition route_markers_table :: "column list" where
  "route_markers_table =
     [col ''id'' False NoDefault,
      col ''route_id'' True NoDefault,
      col ''lng'' True NoDefault,
      col ''lat'' True NoDefault,
      col ''marker_type'' False (Literal (Str ''important'')),
      col ''name'' True NoDefault,
      col ''description'' False NoDefault,
      col ''image_url'' False NoDefault,
      col ''contact'' False NoDefault,
      col ''importance'' False (Literal (Num (Fin 1))),
      col ''category'' False NoDefault,
      col ''created_at'' False CurrentTimestamp]"

text \<open>
  The store: the rows of the two tables in insertion order, the \<open>AUTOINCREMENT\<close>
  counters, and the connection's \<open>foreign_keys\<close> setting. The \<open>users\<close> table plays no
  part in the operations below.
\<close>

record database =
  routes :: "obj list"
  route_markers :: "obj list"
  routes_seq :: nat
  route_markers_seq :: nat
  foreign_keys :: bool

text \<open>
  \<open>initDatabase\<close> on a new file: \<open>connectDatabase\<close> opens the connection with
  \<open>new sqlite3.Database(DB_PATH, ...)\<close> and \<open>createTables\<close> creates the empty tables.
  SQLite enforces foreign keys (and so \<open>ON DELETE CASCADE\<close>) only on a connection that
  has run \<open>PRAGMA foreign_keys = ON\<close>; no statement of the source does, so the
  connection keeps the default, off.
\<close>

definition initDatabase :: "database" where
  "initDatabase =
     \<lparr>routes = [], route_markers = [], routes_seq = 0, route_markers_seq = 0,
      foreign_keys = False\<rparr>"

text \<open>
  The clock is the number of milliseconds of \<open>new Date().getTime()\<close>;
  \<open>CURRENT_TIMESTAMP\<close> has a resolution of one second and is represented by its count of
  seconds (SQLite stores the text \<open>YYYY-MM-DD HH:MM:SS\<close>, which sorts the same way).
\<close>

definition CURRENT_TIMESTAMP :: "nat \<Rightarrow> jsval" where
  "CURRENT_TIMESTAMP now = Num (Fin (of_nat (now div 1000)))"

datatype validation = RequiredRouteFields | RequiredMarkerFields | NoValidUpdateFields

text \<open>
  The rejections of the store operations: \<open>NotConnected\<close> is the explicit check
  \<open>if (!db)\<close>; \<open>ValidationError\<close> one of the three fixed validation messages;
  \<open>RouteNotFound\<close> the missing row of \<open>getRouteByIdFromDB\<close>; \<open>SqliteConstraint\<close> an
  error reported by the engine; \<open>TypeError\<close> a call on the undefined handle;
  \<open>JsonSyntaxError\<close> an exception of \<open>JSON.parse\<close>.
\<close>

datatype db_error =
    NotConnected
  | ValidationError validation
  | RouteNotFound
  | SqliteConstraint
  | TypeError
  | JsonSyntaxError

subsection \<open>Statements\<close>

definition new_row :: "column list \<Rightarrow> jsval \<Rightarrow> nat \<Rightarrow> obj \<Rightarrow> obj" where
  "new_row table rowid now given =
     map (\<lambda>c. (col_name c,
                if col_name c = ''id'' then rowid
                else (case map_of given (col_name c) of
                        Some v \<Rightarrow> bind v
                      | None \<Rightarrow>
                          (case dflt c of
                             NoDefault \<Rightarrow> Null
                           | Literal v \<Rightarrow> v
                           | CurrentTimestamp \<Rightarrow> CURRENT_TIMESTAMP now))))
         table"

definition violates_not_null :: "column list \<Rightarrow> obj \<Rightarrow> bool" where
  "violates_not_null table row =
     list_ex (\<lambda>c. property row (col_name c) = Null) (filter not_null table)"

text \<open>\<open>INSERT INTO routes (...) VALUES (...)\<close>; the result is \<open>this.lastID\<close>.\<close>

definition insert_route :: "database \<Rightarrow> nat \<Rightarrow> obj \<Rightarrow> db_error + (jsval \<times> database)" where
  "insert_route d now given =
     (let lastID = Num (Fin (of_nat (Suc (routes_seq d))));
          row = new_row routes_table lastID now given
      in if violates_not_null routes_table row then Inl SqliteConstraint
         else Inr (lastID, d\<lparr>routes := routes d @ [row], routes_seq := Suc (routes_seq d)\<rparr>))"

text \<open>
  \<open>INSERT INTO route_markers (...) VALUES (...)\<close>; with foreign keys enforced the
  parent route must exist.
\<close>

definition insert_marker :: "database \<Rightarrow> nat \<Rightarrow> obj \<Rightarrow> db_error + (jsval \<times> database)" where
  "insert_marker d now given =
     (let lastID = Num (Fin (of_nat (Suc (route_markers_seq d))));
          row = new_row route_markers_table lastID now given
      in if violates_not_null route_markers_table row then Inl SqliteConstraint
         else if foreign_keys d
                 \<and> \<not> list_ex (\<lambda>r. sql_eq (property r ''id'') (property row ''route_id'')) (routes d)
         then Inl SqliteConstraint
         else Inr (lastID, d\<lparr>route_markers := route_markers d @ [row],
                              route_markers_seq := Suc (route_markers_seq d)\<rparr>))"

text \<open>
  \<open>DELETE FROM routes WHERE id = ?\<close>; the result is \<open>this.changes\<close>. The markers of a
  deleted route go with it when the connection enforces foreign keys.
\<close>

definition delete_route :: "database \<Rightarrow> jsval \<Rightarrow> nat \<times> database" where
  "delete_route d rid =
     (let hit = filter (\<lambda>r. sql_eq (property r ''id'') (bind rid)) (routes d)
      in (length hit,
          d\<lparr>routes := filter (\<lambda>r. \<not> sql_eq (property r ''id'') (bind rid)) (routes d),
            route_markers :=
              (if foreign_keys d
               then filter (\<lambda>m. \<not> list_ex (\<lambda>r. sql_eq (property m ''route_id'') (property r ''id'')) hit)
                      (route_markers d)
               else route_markers d)\<rparr>))"

text \<open>
  \<open>UPDATE routes SET k1 = ?, ..., updated_at = CURRENT_TIMESTAMP WHERE id = ?\<close>; a
  \<open>NOT NULL\<close> violation on a matching row aborts the statement.
\<close>

definition set_columns :: "nat \<Rightarrow> obj \<Rightarrow> obj \<Rightarrow> obj" where
  "set_columns now assignments row =
     AList.update ''updated_at'' (CURRENT_TIMESTAMP now)
       (foldl (\<lambda>r (k, v). AList.update k (bind v) r) row assignments)"

definition update_routes :: "database \<Rightarrow> nat \<Rightarrow> obj \<Rightarrow> jsval \<Rightarrow> db_error + (nat \<times> database)" where
  "update_routes d now assignments rid =
     (let hit = (\<lambda>r. sql_eq (property r ''id'') (bind rid))
      in if list_ex (\<lambda>r. hit r \<and> violates_not_null routes_table (set_columns now assignments r))
              (routes d)
         then Inl SqliteConstraint
         else Inr (length (filter hit (routes d)),
                   d\<lparr>routes := map (\<lambda>r. if hit r then set_columns now assignments r else r)
                                  (routes d)\<rparr>))"

text \<open>The sort key of a numeric column.\<close>

fun num_key :: "jsval \<Rightarrow> rat" where
  "num_key (Num (Fin q)) = q"
| "num_key v = 0"

text \<open>\<open>ORDER BY created_at DESC\<close>\<close>

definition order_by_created_desc :: "obj list \<Rightarrow> obj list" where
  "order_by_created_desc rows = sort_key (\<lambda>r. - num_key (property r ''created_at'')) rows"

text \<open>
  \<open>LIMIT ? OFFSET ?\<close>: a negative offset counts as 0, a negative limit as no limit.
\<close>

definition limit_offset :: "int \<Rightarrow> int \<Rightarrow> 'a list \<Rightarrow> 'a list" where
  "limit_offset n off rows =
     (if n < 0 then drop (nat off) rows else take (nat n) (drop (nat off) rows))"

subsection \<open>Route operations\<close>

definition default_name_prefix :: string where
  "default_name_prefix = [CHR 0xE8, CHR 0xB7, CHR 0xAF, CHR 0xE7, CHR 0xBA, CHR 0xBF, CHR 0x5F]"

definition default_created_by :: string where
  "default_created_by =
     [CHR 0xE8, CHR 0xB7, CHR 0xAF, CHR 0xE7, CHR 0xBA, CHR 0xBF, CHR 0xE8, CHR 0xA7, CHR 0x84,
      CHR 0xE5, CHR 0x88, CHR 0x92, CHR 0xE5, CHR 0x91, CHR 0x98]"

definition default_district_type :: string where
  "default_district_type = [CHR 0xE5, CHR 0x8C, CHR 0xBA]"

definition default_creator :: string where
  "default_creator = [CHR 0xE7, CHR 0xB3, CHR 0xBB, CHR 0xE7, CHR 0xBB, CHR 0x9F]"

text \<open>
  The destructuring at the head of \<open>saveRouteToDB\<close>: each local name with the value it
  gets, in the order of the \<open>INSERT\<close>'s column list.
\<close>

definition route_locals :: "nat \<Rightarrow> obj \<Rightarrow> obj" where
  "route_locals now routeData =
     [(''name'', default_to (property routeData ''name'') (Str (default_name_prefix @ show_nat now))),
      (''description'', default_to (property routeData ''description'') (Str [])),
      (''route_type'', default_to (property routeData ''route_type'') (Str ''driving'')),
      (''city'', default_to (property routeData ''city'') (Str [])),
      (''district'', default_to (property routeData ''district'') (Str [])),
      (''district_type'', default_to (property routeData ''district_type'') (Str default_district_type)),
      (''intersections'', default_to (property routeData ''intersections'') (Num (Fin 0))),
      (''right_turns'', default_to (property routeData ''right_turns'') (Num (Fin 0))),
      (''left_turns'', default_to (property routeData ''left_turns'') (Num (Fin 0))),
      (''u_turns'', default_to (property routeData ''u_turns'') (Num (Fin 0))),
      (''roundabouts'', default_to (property routeData ''roundabouts'') (Num (Fin 0))),
      (''special_traffic_lights'', default_to (property routeData ''special_traffic_lights'') (Num (Fin 0))),
      (''special_intersections'', default_to (property routeData ''special_intersections'') (Num (Fin 0))),
      (''created_by'', default_to (property routeData ''created_by'') (Str default_created_by)),
      (''start_lng'', property routeData ''start_lng''),
      (''start_lat'', property routeData ''start_lat''),
      (''end_lng'', property routeData ''end_lng''),
      (''end_lat'', property routeData ''end_lat''),
      (''waypoints'', property routeData ''waypoints''),
      (''distance'', default_to (property routeData ''distance'') (Num (Fin 0))),
      (''duration'', default_to (property routeData ''duration'') (Num (Fin 0))),
      (''polyline'', default_to (property routeData ''polyline'') (Str [])),
      (''steps'', default_to (property routeData ''steps'') (Str ''[]'')),
      (''tolls'', default_to (property routeData ''tolls'') (Num (Fin 0))),
      (''traffic_lights'', default_to (property routeData ''traffic_lights'') (Num (Fin 0)))]"

text \<open>
  Every operation takes the store handle (\<open>None\<close> before the connection exists) and
  returns its outcome together with the handle afterwards.
\<close>

definition saveRouteToDB ::
  "database option \<Rightarrow> nat \<Rightarrow> obj \<Rightarrow> (db_error + obj) \<times> database option" where
  "saveRouteToDB db now routeData =
     (case db of
        None \<Rightarrow> (Inl NotConnected, db)
      | Some d \<Rightarrow>
          (let locals = route_locals now routeData
           in if \<not> truthy (property locals ''name'') \<or> \<not> truthy (property locals ''waypoints'')
                 \<or> \<not> truthy (property locals ''start_lng'') \<or> \<not> truthy (property locals ''end_lng'')
              then (Inl (ValidationError RequiredRouteFields), db)
              else (case insert_route d now locals of
                      Inl err \<Rightarrow> (Inl err, db)
                    | Inr (lastID, d') \<Rightarrow> (Inr (spread [(''id'', lastID)] routeData), Some d'))))"

text \<open>
  The object built for a fetched row: the row's scalar properties with the \<open>||\<close>
  defaults applied and \<open>creator\<close> added, and the parsed way-points and steps.
  \<open>None\<close> when \<open>JSON.parse\<close> throws.
\<close>

record route_view =
  rv_fields :: obj
  rv_waypoints :: json
  rv_steps :: json

definition parse_or_empty :: "(jsval \<Rightarrow> json option) \<Rightarrow> jsval \<Rightarrow> json option" where
  "parse_or_empty JSON_parse v = (if truthy v then JSON_parse v else Some (JArr []))"

definition present_route :: "(jsval \<Rightarrow> json option) \<Rightarrow> jsval \<Rightarrow> obj \<Rightarrow> route_view option" where
  "present_route JSON_parse creator row =
     (case parse_or_empty JSON_parse (property row ''waypoints'') of
        None \<Rightarrow> None
      | Some wps \<Rightarrow>
          (case parse_or_empty JSON_parse (property row ''steps'') of
             None \<Rightarrow> None
           | Some sts \<Rightarrow>
               Some \<lparr>rv_fields =
                      spread (AList.delete ''waypoints'' (AList.delete ''steps'' row))
                        [(''polyline'', js_or (property row ''polyline'') (Str [])),
                         (''creator'', creator),
                         (''city'', js_or (property row ''city'') (Str [])),
                         (''district'', js_or (property row ''district'') (Str [])),
                         (''district_type'', js_or (property row ''district_type'') (Str default_district_type)),
                         (''intersections'', js_or (property row ''intersections'') (Num (Fin 0))),
                         (''right_turns'', js_or (property row ''right_turns'') (Num (Fin 0))),
                         (''left_turns'', js_or (property row ''left_turns'') (Num (Fin 0))),
                         (''u_turns'', js_or (property row ''u_turns'') (Num (Fin 0))),
                         (''roundabouts'', js_or (property row ''roundabouts'') (Num (Fin 0))),
                         (''special_traffic_lights'', js_or (property row ''special_traffic_lights'') (Num (Fin 0))),
                         (''special_intersections'', js_or (property row ''special_intersections'') (Num (Fin 0)))],
                     rv_waypoints = wps,
                     rv_steps = sts\<rparr>))"

definition getRouteByIdFromDB ::
  "(jsval \<Rightarrow> json option) \<Rightarrow> database option \<Rightarrow> jsval \<Rightarrow> db_error + route_view" where
  "getRouteByIdFromDB JSON_parse db rid =
     (case db of
        None \<Rightarrow> Inl NotConnected
      | Some d \<Rightarrow>
          (case filter (\<lambda>r. sql_eq (property r ''id'') (bind rid)) (routes d) of
             [] \<Rightarrow> Inl RouteNotFound
           | row # others \<Rightarrow>
               (case present_route JSON_parse (property row ''created_by'') row of
                  None \<Rightarrow> Inl JsonSyntaxError
                | Some view \<Rightarrow> Inr view)))"

definition allowedFields :: "string list" where
  "allowedFields =
     [''name'', ''description'', ''route_type'', ''city'', ''district'', ''district_type'',
      ''intersections'', ''right_turns'', ''left_turns'', ''u_turns'', ''roundabouts'',
      ''special_traffic_lights'', ''special_intersections'', ''created_by'',
      ''start_lng'', ''start_lat'', ''end_lng'', ''end_lat'', ''waypoints'', ''distance'',
      ''duration'', ''polyline'', ''steps'', ''tolls'', ''traffic_lights'']"

text \<open>
  The loop over \<open>Object.keys(updates)\<close>: the column and parameter pushed for each key.
\<close>

definition update_fields :: "obj \<Rightarrow> obj" where
  "update_fields updates =
     concat (map (\<lambda>key.
               if key \<in> set allowedFields
               then (if key = ''description'' then [(''description'', property updates key)]
                     else if key = ''creator'' then [(''created_by'', property updates key)]
                     else [(key, property updates key)])
               else [])
             (map fst updates))"

record change_result =
  cr_id :: jsval
  changes :: nat

definition updateRouteInDB ::
  "database option \<Rightarrow> nat \<Rightarrow> jsval \<Rightarrow> obj \<Rightarrow> (db_error + change_result) \<times> database option" where
  "updateRouteInDB db now rid updates =
     (case db of
        None \<Rightarrow> (Inl NotConnected, db)
      | Some d \<Rightarrow>
          (let updateFields = update_fields updates
           in if length updateFields = 0 then (Inl (ValidationError NoValidUpdateFields), db)
              else (case update_routes d now updateFields rid of
                      Inl err \<Rightarrow> (Inl err, db)
                    | Inr (n, d') \<Rightarrow> (Inr \<lparr>cr_id = rid, changes = n\<rparr>, Some d'))))"

definition deleteRouteFromDB ::
  "database option \<Rightarrow> jsval \<Rightarrow> (db_error + change_result) \<times> database option" where
  "deleteRouteFromDB db rid =
     (case db of
        None \<Rightarrow> (Inl NotConnected, db)
      | Some d \<Rightarrow>
          (case delete_route d rid of
             (n, d') \<Rightarrow> (Inr \<lparr>cr_id = rid, changes = n\<rparr>, Some d')))"

subsection \<open>Marker operations\<close>

definition marker_locals :: "jsval \<Rightarrow> obj \<Rightarrow> obj" where
  "marker_locals routeId markerData =
     [(''route_id'', routeId),
      (''lng'', property markerData ''lng''),
      (''lat'', property markerData ''lat''),
      (''marker_type'', default_to (property markerData ''marker_type'') (Str ''important'')),
      (''name'', property markerData ''name''),
      (''description'', default_to (property markerData ''description'') (Str [])),
      (''image_url'', default_to (property markerData ''image_url'') (Str [])),
      (''contact'', default_to (property markerData ''contact'') (Str [])),
      (''importance'', default_to (property markerData ''importance'') (Num (Fin 1))),
      (''category'', default_to (property markerData ''category'') (Str ''other''))]"

definition saveRouteMarkerToDB ::
  "database option \<Rightarrow> nat \<Rightarrow> jsval \<Rightarrow> obj \<Rightarrow> (db_error + obj) \<times> database option" where
  "saveRouteMarkerToDB db now routeId markerData =
     (case db of
        None \<Rightarrow> (Inl NotConnected, db)
      | Some d \<Rightarrow>
          (let locals = marker_locals routeId markerData
           in if \<not> truthy (property locals ''lng'') \<or> \<not> truthy (property locals ''lat'')
                 \<or> \<not> truthy (property locals ''name'')
              then (Inl (ValidationError RequiredMarkerFields), db)
              else (case insert_marker d now locals of
                      Inl err \<Rightarrow> (Inl err, db)
                    | Inr (lastID, d') \<Rightarrow>
                        (Inr (spread [(''id'', lastID), (''route_id'', routeId)] markerData),
                         Some d'))))"

text \<open>
  \<open>SELECT * FROM route_markers WHERE route_id = ? ORDER BY importance DESC,
  created_at DESC\<close>
\<close>

definition getRouteMarkersFromDB :: "database option \<Rightarrow> jsval \<Rightarrow> db_error + obj list" where
  "getRouteMarkersFromDB db routeId =
     (case db of
        None \<Rightarrow> Inl NotConnected
      | Some d \<Rightarrow>
          Inr (sort_key (\<lambda>m. - num_key (property m ''importance''))
                 (order_by_created_desc
                    (filter (\<lambda>m. sql_eq (property m ''route_id'') (bind routeId))
                       (route_markers d)))))"

subsection \<open>Search\<close>

text \<open>
  \<open>keyword.trim()\<close> removes white space and line terminators at both ends. These are the
  code points U+0009 to U+000D, U+0020, U+00A0, U+1680, U+2000 to U+200A, U+2028,
  U+2029, U+202F, U+205F, U+3000 and U+FEFF, listed here by their UTF-8 encodings.
\<close>

definition white_space :: "string list" where
  "white_space =
     [[CHR 0x09], [CHR 0x0A], [CHR 0x0B], [CHR 0x0C], [CHR 0x0D], [CHR 0x20],
      [CHR 0xC2, CHR 0xA0],
      [CHR 0xE1, CHR 0x9A, CHR 0x80],
      [CHR 0xE2, CHR 0x80, CHR 0x80], [CHR 0xE2, CHR 0x80, CHR 0x81],
      [CHR 0xE2, CHR 0x80, CHR 0x82], [CHR 0xE2, CHR 0x80, CHR 0x83],
      [CHR 0xE2, CHR 0x80, CHR 0x84], [CHR 0xE2, CHR 0x80, CHR 0x85],
      [CHR 0xE2, CHR 0x80, CHR 0x86], [CHR 0xE2, CHR 0x80, CHR 0x87],
      [CHR 0xE2, CHR 0x80, CHR 0x88], [CHR 0xE2, CHR 0x80, CHR 0x89],
      [CHR 0xE2, CHR 0x80, CHR 0x8A],
      [CHR 0xE2, CHR 0x80, CHR 0xA8], [CHR 0xE2, CHR 0x80, CHR 0xA9],
      [CHR 0xE2, CHR 0x80, CHR 0xAF],
      [CHR 0xE2, CHR 0x81, CHR 0x9F],
      [CHR 0xE3, CHR 0x80, CHR 0x80],
      [CHR 0xEF, CHR 0xBB, CHR 0xBF]]"

text \<open>Removes from the front of \<open>s\<close> every leading occurrence of one of \<open>toks\<close>.\<close>

function strip_leading :: "string list \<Rightarrow> string \<Rightarrow> string" where
  "strip_leading toks s =
     (case find (\<lambda>w. w \<noteq> [] \<and> take (length w) s = w) toks of
        None \<Rightarrow> s
      | Some w \<Rightarrow> strip_leading toks (drop (length w) s))"
  by pat_completeness auto
termination
proof (relation "measure (\<lambda>(toks, s). length s)")
  show "wf (measure (\<lambda>(toks :: string list, s :: string). length s))" by simp
next
  fix toks :: "string list" and s w :: string
  assume "find (\<lambda>w. w \<noteq> [] \<and> take (length w) s = w) toks = Some w"
  then have w: "w \<noteq> []" "take (length w) s = w"
    by (auto simp: find_Some_iff)
  from w(2) have "length w = min (length w) (length s)"
    using length_take [of "length w" s] by simp
  then have "length w \<le> length s" by linarith
  with w(1) show "((toks, drop (length w) s), (toks, s)) \<in> measure (\<lambda>(toks, s). length s)"
    by (cases w) simp_all
qed

declare strip_leading.simps [simp del]

definition trim :: "string \<Rightarrow> string" where
  "trim s = rev (strip_leading (map rev white_space) (rev (strip_leading white_space s)))"

record search_filters =
  keyword :: "string option"
  page :: "int option"
  limit :: "int option"

text \<open>
  The parameter bound to each of the five \<open>LIKE ?\<close>, or \<open>None\<close> when no \<open>WHERE\<close> clause
  is added: \<open>if (keyword && keyword.trim() !== '')\<close>.
\<close>

definition like_pattern :: "string \<Rightarrow> string option" where
  "like_pattern kw = (if kw \<noteq> [] \<and> trim kw \<noteq> [] then Some (''%'' @ kw @ ''%'') else None)"

text \<open>
  \<open>WHERE name LIKE ? OR description LIKE ? OR city LIKE ? OR district LIKE ? OR
  created_by LIKE ?\<close>. The engine's \<open>LIKE\<close> is a parameter: \<open>like p v\<close> says whether
  \<open>v LIKE p\<close> is true.
\<close>

definition where_clause :: "(string \<Rightarrow> jsval \<Rightarrow> bool) \<Rightarrow> string option \<Rightarrow> obj \<Rightarrow> bool" where
  "where_clause like pattern row =
     (case pattern of
        None \<Rightarrow> True
      | Some p \<Rightarrow>
          like p (property row ''name'') \<or> like p (property row ''description'')
          \<or> like p (property row ''city'') \<or> like p (property row ''district'')
          \<or> like p (property row ''created_by''))"

datatype sql_stmt =
    CountQuery "string option"
  | DataQuery "string option" int int

text \<open>\<open>SELECT COUNT(*) as total FROM routes [WHERE ...]\<close>\<close>

definition run_count :: "(string \<Rightarrow> jsval \<Rightarrow> bool) \<Rightarrow> database \<Rightarrow> string option \<Rightarrow> nat" where
  "run_count like d pattern = length (filter (where_clause like pattern) (routes d))"

text \<open>\<open>SELECT * FROM routes [WHERE ...] ORDER BY created_at DESC LIMIT ? OFFSET ?\<close>\<close>

definition run_data ::
  "(string \<Rightarrow> jsval \<Rightarrow> bool) \<Rightarrow> database \<Rightarrow> string option \<Rightarrow> int \<Rightarrow> int \<Rightarrow> obj list" where
  "run_data like d pattern n off =
     limit_offset n off (order_by_created_desc (filter (where_clause like pattern) (routes d)))"

text \<open>A row whose JSON text does not parse is returned as it is (\<open>catch (parseError)\<close>).\<close>

definition search_item :: "(jsval \<Rightarrow> json option) \<Rightarrow> obj \<Rightarrow> obj + route_view" where
  "search_item JSON_parse row =
     (case present_route JSON_parse (js_or (property row ''created_by'') (Str default_creator)) row of
        None \<Rightarrow> Inl row
      | Some view \<Rightarrow> Inr view)"

record search_result =
  sr_routes :: "(obj + route_view) list"
  sr_total :: nat
  sr_page :: int
  sr_limit :: int

text \<open>
  The result comes with the statements that were sent to the engine, in order.
  \<open>searchRoutesFromDB\<close> has no \<open>if (!db)\<close>: without a handle, \<open>db.get\<close> throws.
\<close>

definition searchRoutesFromDB ::
  "(string \<Rightarrow> jsval \<Rightarrow> bool) \<Rightarrow> (jsval \<Rightarrow> json option) \<Rightarrow> database option \<Rightarrow> search_filters
     \<Rightarrow> (db_error + search_result) \<times> sql_stmt list" where
  "searchRoutesFromDB like JSON_parse db filters =
     (let kw = (case keyword filters of None \<Rightarrow> [] | Some k \<Rightarrow> k);
          pg = (case page filters of None \<Rightarrow> 1 | Some p \<Rightarrow> p);
          lim = (case limit filters of None \<Rightarrow> 20 | Some l \<Rightarrow> l);
          offset = (pg - 1) * lim
      in case db of
           None \<Rightarrow> (Inl TypeError, [])
         | Some d \<Rightarrow>
             (let total = run_count like d (like_pattern kw)
              in if total = 0
                 then (Inr \<lparr>sr_routes = [], sr_total = 0, sr_page = pg, sr_limit = lim\<rparr>,
                       [CountQuery (like_pattern kw)])
                 else (Inr \<lparr>sr_routes = map (search_item JSON_parse)
                                           (run_data like d (like_pattern kw) lim offset),
                             sr_total = total, sr_page = pg, sr_limit = lim\<rparr>,
                       [CountQuery (like_pattern kw),
                        DataQuery (like_pattern kw) lim offset])))"

section \<open>Auxiliary notions and example data\<close>

text \<open>
  Notions in which the properties below are stated, and concrete inputs on which they
  are evaluated.
\<close>

definition no_path_response :: provider_response where
  "no_path_response = \<lparr>status = ''1'', info = ''OK'', route = Some \<lparr>paths = Some []\<rparr>\<rparr>"

definition sample_step :: raw_step where
  "sample_step =
     \<lparr>step_instruction = ''Turn <b>left</b>'', step_distance = Fin 150, step_duration = Fin 61,
      step_road = Undefined, step_orientation = Str ''N'',
      step_polyline = Some ''116.1,39.1;116.2,39.2''\<rparr>"

definition sample_path :: raw_path where
  "sample_path =
     \<lparr>path_distance = Fin 1950, path_duration = Fin 61, path_tolls = Str ''0'',
      path_traffic_lights = Undefined, path_polyline = None,
      path_steps = [sample_step, sample_step\<lparr>step_polyline := Some []\<rparr>,
                    sample_step\<lparr>step_polyline := None\<rparr>,
                    sample_step\<lparr>step_polyline := Some ''116.3,39.0''\<rparr>]\<rparr>"

definition sample_response :: provider_response where
  "sample_response =
     \<lparr>status = ''1'', info = ''OK'', route = Some \<lparr>paths = Some [sample_path]\<rparr>\<rparr>"


text \<open>\<open>SELECT c FROM ...\<close>: the values of one column.\<close>

definition column_values :: "string \<Rightarrow> obj list \<Rightarrow> jsval list" where
  "column_values c rows = map (\<lambda>r. property r c) rows"

definition spec_route :: obj where
  "spec_route =
     [(''name'', Str ''A''),
      (''waypoints'', Str ''[[116.397,39.909],[116.407,39.919]]''),
      (''start_lng'', Num (Fin (116397 / 1000))),
      (''start_lat'', Num (Fin (39909 / 1000))),
      (''end_lng'', Num (Fin (116407 / 1000))),
      (''end_lat'', Num (Fin (39919 / 1000)))]"

text \<open>The same route without a name.\<close>

definition nameless_route :: obj where
  "nameless_route = tl spec_route"

text \<open>A route that starts on the prime meridian, and a marker on the equator.\<close>

definition meridian_route :: obj where
  "meridian_route =
     [(''name'', Str ''Greenwich''),
      (''waypoints'', Str ''[]''),
      (''start_lng'', Num (Fin 0)),
      (''start_lat'', Num (Fin (51477 / 1000))),
      (''end_lng'', Num (Fin (1 / 10))),
      (''end_lat'', Num (Fin (515 / 10)))]"

definition equator_marker :: obj where
  "equator_marker = [(''lng'', Num (Fin (3682 / 100))), (''lat'', Num (Fin 0)), (''name'', Str ''Nanyuki'')]"

text \<open>
  \<open>JSON.parse\<close> on the two JSON texts that occur in the examples (and failing on
  everything else), to instantiate the runtime parameter there.
\<close>

definition sample_JSON_parse :: "jsval \<Rightarrow> json option" where
  "sample_JSON_parse v =
     (if v = Str ''[]'' then Some (JArr [])
      else if v = Str ''[[116.397,39.909],[116.407,39.919]]''
      then Some (JArr [JArr [JNum (116397 / 1000), JNum (39909 / 1000)],
                       JArr [JNum (116407 / 1000), JNum (39919 / 1000)]])
      else None)"

text \<open>Creating \<open>spec_route\<close> in the new store and fetching it by the id returned.\<close>

definition created_spec_route :: "(db_error + obj) \<times> database option" where
  "created_spec_route = saveRouteToDB (Some initDatabase) 5123 spec_route"

definition fetched_spec_route :: "db_error + route_view" where
  "fetched_spec_route =
     (case fst created_spec_route of
        Inl err \<Rightarrow> Inl err
      | Inr res \<Rightarrow> getRouteByIdFromDB sample_JSON_parse (snd created_spec_route) (property res ''id''))"

definition fetched_field :: "string \<Rightarrow> db_error + jsval" where
  "fetched_field k =
     (case fetched_spec_route of
        Inl err \<Rightarrow> Inl err
      | Inr view \<Rightarrow> Inr (property (rv_fields view) k))"

text \<open>The store after \<open>spec_route\<close> has been created in the new store at time 5123.\<close>

definition stored_spec_route :: obj where
  "stored_spec_route =
     [(''id'', Num (Fin 1)),
      (''name'', Str ''A''),
      (''description'', Str []),
      (''route_type'', Str ''driving''),
      (''city'', Str []),
      (''district'', Str []),
      (''district_type'', Str default_district_type),
      (''intersections'', Num (Fin 0)),
      (''right_turns'', Num (Fin 0)),
      (''left_turns'', Num (Fin 0)),
      (''u_turns'', Num (Fin 0)),
      (''roundabouts'', Num (Fin 0)),
      (''special_traffic_lights'', Num (Fin 0)),
      (''special_intersections'', Num (Fin 0)),
      (''start_lng'', Num (Fin (116397 / 1000))),
      (''start_lat'', Num (Fin (39909 / 1000))),
      (''end_lng'', Num (Fin (116407 / 1000))),
      (''end_lat'', Num (Fin (39919 / 1000))),
      (''waypoints'', Str ''[[116.397,39.909],[116.407,39.919]]''),
      (''distance'', Num (Fin 0)),
      (''duration'', Num (Fin 0)),
      (''polyline'', Str []),
      (''steps'', Str ''[]''),
      (''tolls'', Num (Fin 0)),
      (''traffic_lights'', Num (Fin 0)),
      (''created_by'', Str default_created_by),
      (''created_at'', CURRENT_TIMESTAMP 5123),
      (''updated_at'', CURRENT_TIMESTAMP 5123)]"

definition one_route_db :: database where
  "one_route_db =
     \<lparr>routes = [stored_spec_route], route_markers = [], routes_seq = 1, route_markers_seq = 0,
      foreign_keys = False\<rparr>"

text \<open>
  Notions used to state the search properties: the rows that satisfy the keyword
  predicate, a search for one page, the rows that a search returned, and the number of
  pages of a given size that hold a given number of rows.
\<close>

definition matching_routes :: "(string \<Rightarrow> jsval \<Rightarrow> bool) \<Rightarrow> database \<Rightarrow> string \<Rightarrow> obj list" where
  "matching_routes like d kw = filter (where_clause like (like_pattern kw)) (routes d)"

definition search_page ::
  "(string \<Rightarrow> jsval \<Rightarrow> bool) \<Rightarrow> (jsval \<Rightarrow> json option) \<Rightarrow> database \<Rightarrow> string \<Rightarrow> int \<Rightarrow> int
     \<Rightarrow> (db_error + search_result) \<times> sql_stmt list" where
  "search_page like JSON_parse d kw pageSize pg =
     searchRoutesFromDB like JSON_parse (Some d) \<lparr>keyword = Some kw, page = Some pg, limit = Some pageSize\<rparr>"

definition page_rows :: "(db_error + search_result) \<times> sql_stmt list \<Rightarrow> (obj + route_view) list" where
  "page_rows r = (case fst r of Inl err \<Rightarrow> [] | Inr res \<Rightarrow> sr_routes res)"

definition page_count :: "nat \<Rightarrow> int \<Rightarrow> nat" where
  "page_count rowCount pageSize = (rowCount + nat pageSize - 1) div nat pageSize"

text \<open>
  SQLite's \<open>LIKE\<close> on text: \<open>%\<close> matches any run of characters, \<open>_\<close> any one character,
  and ASCII letters match without regard to case; \<open>NULL LIKE p\<close> is not true. It
  instantiates the engine parameter of the search in the examples.
\<close>

definition to_upper :: "char \<Rightarrow> char" where
  "to_upper c =
     (case map_of (zip ''abcdefghijklmnopqrstuvwxyz'' ''ABCDEFGHIJKLMNOPQRSTUVWXYZ'') c of
        None \<Rightarrow> c
      | Some u \<Rightarrow> u)"

fun like_match :: "string \<Rightarrow> string \<Rightarrow> bool" where
  "like_match [] [] = True"
| "like_match [] (c # cs) = False"
| "like_match (p # ps) [] = (p = CHR ''%'' \<and> like_match ps [])"
| "like_match (p # ps) (c # cs) =
     (if p = CHR ''%'' then like_match ps (c # cs) \<or> like_match (p # ps) cs
      else (p = CHR ''_'' \<or> to_upper p = to_upper c) \<and> like_match ps cs)"

fun sqlite_like :: "string \<Rightarrow> jsval \<Rightarrow> bool" where
  "sqlite_like p (Str s) = like_match p s"
| "sqlite_like p v = False"

text \<open>A keyword that consists of one ideographic space, U+3000.\<close>

definition ideographic_space :: string where
  "ideographic_space = [CHR 0xE3, CHR 0x80, CHR 0x80]"

text \<open>A store with three routes, named \<open>A\<close>, \<open>Alpha\<close> and \<open>Bridge\<close>.\<close>

definition route_alpha :: obj where
  "route_alpha =
     AList.update ''id'' (Num (Fin 2)) (AList.update ''name'' (Str ''Alpha'') stored_spec_route)"

definition route_bridge :: obj where
  "route_bridge =
     AList.update ''id'' (Num (Fin 3)) (AList.update ''name'' (Str ''Bridge'') stored_spec_route)"

definition three_routes_db :: database where
  "three_routes_db =
     \<lparr>routes = [stored_spec_route, route_alpha, route_bridge],
      route_markers = [], routes_seq = 3, route_markers_seq = 0, foreign_keys = False\<rparr>"

text \<open>
  A marker for route 1, the store once it has been added to \<open>one_route_db\<close> at time
  6000, and the outcome of deleting route 1 from that store and listing its markers.
\<close>

definition sample_marker :: obj where
  "sample_marker =
     [(''lng'', Num (Fin (1164 / 10))), (''lat'', Num (Fin (399 / 10))), (''name'', Str ''Gate'')]"

definition stored_sample_marker :: obj where
  "stored_sample_marker =
     [(''id'', Num (Fin 1)),
      (''route_id'', Num (Fin 1)),
      (''lng'', Num (Fin (1164 / 10))),
      (''lat'', Num (Fin (399 / 10))),
      (''marker_type'', Str ''important''),
      (''name'', Str ''Gate''),
      (''description'', Str []),
      (''image_url'', Str []),
      (''contact'', Str []),
      (''importance'', Num (Fin 1)),
      (''category'', Str ''other''),
      (''created_at'', CURRENT_TIMESTAMP 6000)]"

definition marked_route_db :: database where
  "marked_route_db = one_route_db\<lparr>route_markers := [stored_sample_marker], route_markers_seq := 1\<rparr>"

definition markers_after_delete :: "db_error + obj list" where
  "markers_after_delete =
     getRouteMarkersFromDB (snd (deleteRouteFromDB (Some marked_route_db) (Num (Fin 1)))) (Num (Fin 1))"

section \<open>Verified properties\<close>

subsection \<open>Auxiliary facts\<close>

lemma split_not_Nil: "split sep s \<noteq> []"
  by (induction s) (auto split: list.splits)

lemma foldl_min_step_Fin:
  "foldl min_step (Fin a) (map Fin qs) = Fin (Min (insert a (set qs)))"
proof (induction qs arbitrary: a)
  case Nil
  show ?case by simp
next
  case (Cons q qs)
  have step: "min_step (Fin a) (Fin q) = Fin (min a q)"
    by (simp add: min_step_def min_def)
  have "Min (insert (min a q) (set qs)) = Min (insert a (insert q (set qs)))"
    by (cases "set qs = {}") (simp_all add: min.assoc)
  with Cons.IH [of "min a q"] step show ?case by simp
qed

lemma foldl_max_step_Fin:
  "foldl max_step (Fin a) (map Fin qs) = Fin (Max (insert a (set qs)))"
proof (induction qs arbitrary: a)
  case Nil
  show ?case by simp
next
  case (Cons q qs)
  have step: "max_step (Fin a) (Fin q) = Fin (max a q)"
    by (simp add: max_step_def max_def)
  have "Max (insert (max a q) (set qs)) = Max (insert a (insert q (set qs)))"
    by (cases "set qs = {}") (simp_all add: max.assoc)
  with Cons.IH [of "max a q"] step show ?case by simp
qed

lemma Math_min_Fin: "qs \<noteq> [] \<Longrightarrow> Math_min (map Fin qs) = Fin (Min (set qs))"
  by (cases qs) (simp_all add: Math_min_def min_step_def foldl_min_step_Fin)

lemma Math_max_Fin: "qs \<noteq> [] \<Longrightarrow> Math_max (map Fin qs) = Fin (Max (set qs))"
  by (cases qs) (simp_all add: Math_max_def max_step_def foldl_max_step_Fin)

subsection \<open>Rounding to a double and to tenths\<close>
























subsection \<open>Route normalisation\<close>

text \<open>
  Claim C2. A response whose path list is missing or empty (no \<open>route\<close>, no \<open>paths\<close>, or
  \<open>paths = []\<close>) is rejected with \<open>NoPathFoundError\<close> and yields no route plan; this
  also holds on the path through \<open>planDrivingRoute\<close> when the provider's status is the
  success value \<open>'1'\<close>.
\<close>

theorem C2_no_path_fails:
  "route data = None \<or> (\<exists>r. route data = Some r \<and> (paths r = None \<or> paths r = Some []))
   \<Longrightarrow> parseRealRouteData parseFloat Number data = Inl NoPathFoundError
       \<and> (status data = ''1''
            \<longrightarrow> planDrivingRoute_response parseFloat Number data = Inl NoPathFoundError)"
  by (auto simp: parseRealRouteData_def planDrivingRoute_response_def)

theorem C2_no_path_fails_witness:
  "status no_path_response = ''1''
   \<and> planDrivingRoute_response decimal_literal decimal_literal no_path_response
       = Inl NoPathFoundError"
  using C2_no_path_fails [of no_path_response decimal_literal decimal_literal]
  by (simp add: no_path_response_def)





text \<open>
  Claim C7. For the first path of a response: when the path's own polyline is present
  and non-empty, it is the geometry that is decoded; when it is missing or empty, the
  decoded geometry is the steps' own fragments, in step order and without the missing
  and the empty ones, joined with \<open>;\<close>.
\<close>

theorem C7_polyline_aggregation:
  assumes "route data = Some r" and "paths r = Some (path # others)"
  shows "\<exists>plan. parseRealRouteData parseFloat Number data = Inr plan
           \<and> rp_polyline plan = decodePolyline parseFloat (Str (aggregatedPolyline path))
           \<and> (\<forall>p. path_polyline path = Some p \<and> p \<noteq> [] \<longrightarrow> aggregatedPolyline path = p)
           \<and> (path_polyline path = None \<or> path_polyline path = Some []
                \<longrightarrow> aggregatedPolyline path
                    = join '';''
                        (concat (map (\<lambda>st. case step_polyline st of
                                             None \<Rightarrow> []
                                           | Some f \<Rightarrow> if f = [] then [] else [f])
                                     (path_steps path))))"
proof -
  have frag: "map the (filter (\<lambda>p. p \<noteq> None \<and> p \<noteq> Some []) (map step_polyline sts))
              = concat (map (\<lambda>st. case step_polyline st of
                                     None \<Rightarrow> []
                                   | Some f \<Rightarrow> if f = [] then [] else [f]) sts)"
    for sts :: "raw_step list"
    by (induction sts) (auto split: option.splits)
  have "parseRealRouteData parseFloat Number data
        = Inr \<lparr>rp_distance = toFixed1 (js_div (path_distance path) 1000),
               rp_time = Math_ceil (js_div (path_duration path) 60),
               rp_tolls = js_or (path_tolls path) (Num (Fin 0)),
               rp_traffic_lights = js_or (path_traffic_lights path) (Num (Fin 0)),
               rp_steps = map parse_step (path_steps path),
               rp_polyline = decodePolyline parseFloat (Str (aggregatedPolyline path)),
               rp_bounds = calculateBounds Number (Str (aggregatedPolyline path)),
               rp_source = source_label\<rparr>"
    using assms by (simp add: parseRealRouteData_def)
  moreover have "\<forall>p. path_polyline path = Some p \<and> p \<noteq> [] \<longrightarrow> aggregatedPolyline path = p"
    by (simp add: aggregatedPolyline_def)
  moreover have "path_polyline path = None \<or> path_polyline path = Some []
                \<longrightarrow> aggregatedPolyline path
                    = join '';''
                        (concat (map (\<lambda>st. case step_polyline st of
                                             None \<Rightarrow> []
                                           | Some f \<Rightarrow> if f = [] then [] else [f])
                                     (path_steps path)))"
    unfolding aggregatedPolyline_def frag by auto
  ultimately show ?thesis by simp
qed

theorem C7_polyline_aggregation_witness:
  "\<exists>plan. parseRealRouteData decimal_literal decimal_literal sample_response = Inr plan
     \<and> path_polyline sample_path = None
     \<and> aggregatedPolyline sample_path = ''116.1,39.1;116.2,39.2;116.3,39.0''
     \<and> rp_polyline plan
         = [(Fin (1161 / 10), Fin (391 / 10)), (Fin (581 / 5), Fin (196 / 5)),
            (Fin (1163 / 10), Fin 39)]"
proof -
  have r: "route sample_response = Some \<lparr>paths = Some [sample_path]\<rparr>"
    by (simp add: sample_response_def)
  have p: "paths \<lparr>paths = Some [sample_path]\<rparr> = Some (sample_path # [])"
    by simp
  have n: "path_polyline sample_path = None"
    by (simp add: sample_path_def)
  have j: "join '';''
             (concat (map (\<lambda>st. case step_polyline st of
                                   None \<Rightarrow> []
                                 | Some f \<Rightarrow> if f = [] then [] else [f])
                           (path_steps sample_path)))
           = ''116.1,39.1;116.2,39.2;116.3,39.0''"
    by (simp add: sample_path_def sample_step_def)
  have d: "decodePolyline decimal_literal (Str ''116.1,39.1;116.2,39.2;116.3,39.0'')
           = [(Fin (1161 / 10), Fin (391 / 10)), (Fin (581 / 5), Fin (196 / 5)),
              (Fin (1163 / 10), Fin 39)]"
    by (simp add: decodePolyline_def decimal_literal_def is_digit_def digits_val_def)
  from C7_polyline_aggregation [OF r p, of decimal_literal decimal_literal] n j d
  show ?thesis by auto
qed

subsection \<open>Geometry decoding\<close>

lemma map_eq_transfer:
  "map f xs = map g ys \<Longrightarrow> (\<And>x y. x \<in> set xs \<Longrightarrow> f x = g y \<Longrightarrow> f' x = g' y)
   \<Longrightarrow> map f' xs = map g' ys"
proof (induction xs arbitrary: ys)
  case Nil
  then show ?case by simp
next
  case (Cons x xs)
  then obtain y ys' where ys: "ys = y # ys'" by (cases ys) auto
  with Cons.prems have "f x = g y" "map f xs = map g ys'" by simp_all
  with Cons.IH [of ys'] Cons.prems(2) ys show ?case by simp
qed

lemma bounds_points_of_decoded:
  assumes dec: "decodePolyline parseFloat (Str s) = map (\<lambda>(x, y). (Fin x, Fin y)) cs"
    and ne: "s \<noteq> []"
    and agree: "\<forall>pt \<in> set (split CHR '';'' s). \<forall>t \<in> set (take 2 (split CHR '','' pt)).
                  Number t = parseFloat t"
  shows "bounds_points Number s = map (\<lambda>(x, y). \<lparr>lng = Fin x, lat = Fin y\<rparr>) cs"
proof -
  let ?f = "\<lambda>point. (case split CHR '','' point of
                          a # b # rest \<Rightarrow> (parseFloat a, parseFloat b)
                        | [a] \<Rightarrow> (parseFloat a, NaN)
                        | [] \<Rightarrow> (NaN, NaN))"
  let ?f' = "\<lambda>point. (case map Number (split CHR '','' point) of
                          a # b # rest \<Rightarrow> \<lparr>lng = a, lat = b\<rparr>
                        | [a] \<Rightarrow> \<lparr>lng = a, lat = NaN\<rparr>
                        | [] \<Rightarrow> \<lparr>lng = NaN, lat = NaN\<rparr>)"
  from dec ne have m: "map ?f (split CHR '';'' s) = map (\<lambda>(x, y). (Fin x, Fin y)) cs"
    by (simp add: decodePolyline_def)
  have "map ?f' (split CHR '';'' s) = map (\<lambda>(x, y). \<lparr>lng = Fin x, lat = Fin y\<rparr>) cs"
  proof (rule map_eq_transfer [OF m])
    fix pt c
    assume pt: "pt \<in> set (split CHR '';'' s)"
      and eq: "?f pt = (case c of (x, y) \<Rightarrow> (Fin x, Fin y))"
    obtain x y where c: "c = (x, y)" by (cases c)
    from eq c obtain a b rest where sp: "split CHR '','' pt = a # b # rest"
      and ab: "parseFloat a = Fin x" "parseFloat b = Fin y"
      by (auto split: list.splits)
    from agree pt sp have "Number a = parseFloat a" "Number b = parseFloat b"
      by auto
    with sp ab c show "?f' pt = (case c of (x, y) \<Rightarrow> \<lparr>lng = Fin x, lat = Fin y\<rparr>)"
      by simp
  qed
  then show ?thesis by (simp add: bounds_points_def)
qed

lemma decoded_not_Nil:
  "decodePolyline parseFloat (Str s) = map h cs \<Longrightarrow> s \<noteq> [] \<Longrightarrow> cs \<noteq> []"
  using split_not_Nil [of "CHR '';''" s] by (auto simp: decodePolyline_def)

text \<open>
  Claim C8. Decoding the empty string gives the empty sequence and its bounds are
  \<open>null\<close>; decoding \<open>116.1,39.1\<close> gives exactly one coordinate, made of the two numbers
  written; and for a non-empty path string that decodes to the finite coordinates \<open>cs\<close>
  (with \<open>Number\<close> and \<open>parseFloat\<close> reading the coordinate texts alike, as they do on
  decimal literals) the bounds are the componentwise minimum as south-west corner and
  the componentwise maximum as north-east corner, so that for a single point the two
  corners coincide with the point.
\<close>

theorem C8_decode_and_bounds:
  "decodePolyline parseFloat (Str []) = []
   \<and> calculateBounds Number (Str []) = None
   \<and> decodePolyline parseFloat (Str ''116.1,39.1'') = [(parseFloat ''116.1'', parseFloat ''39.1'')]
   \<and> (s \<noteq> [] \<and> decodePolyline parseFloat (Str s) = map (\<lambda>(x, y). (Fin x, Fin y)) cs
        \<and> (\<forall>pt \<in> set (split CHR '';'' s). \<forall>t \<in> set (take 2 (split CHR '','' pt)).
              Number t = parseFloat t)
       \<longrightarrow> calculateBounds Number (Str s)
             = Some \<lparr>southwest = \<lparr>lng = Fin (Min (fst ` set cs)), lat = Fin (Min (snd ` set cs))\<rparr>,
                     northeast = \<lparr>lng = Fin (Max (fst ` set cs)), lat = Fin (Max (snd ` set cs))\<rparr>\<rparr>
           \<and> (\<forall>x y. cs = [(x, y)]
                \<longrightarrow> calculateBounds Number (Str s)
                      = Some \<lparr>southwest = \<lparr>lng = Fin x, lat = Fin y\<rparr>,
                              northeast = \<lparr>lng = Fin x, lat = Fin y\<rparr>\<rparr>))"
proof (intro conjI impI)
  show "decodePolyline parseFloat (Str []) = []"
    by (simp add: decodePolyline_def)
  show "calculateBounds Number (Str []) = None"
    by (simp add: calculateBounds_def)
  show "decodePolyline parseFloat (Str ''116.1,39.1'')
        = [(parseFloat ''116.1'', parseFloat ''39.1'')]"
    by (simp add: decodePolyline_def)
next
  assume h: "s \<noteq> [] \<and> decodePolyline parseFloat (Str s) = map (\<lambda>(x, y). (Fin x, Fin y)) cs
        \<and> (\<forall>pt \<in> set (split CHR '';'' s). \<forall>t \<in> set (take 2 (split CHR '','' pt)).
              Number t = parseFloat t)"
  then have pts: "bounds_points Number s = map (\<lambda>(x, y). \<lparr>lng = Fin x, lat = Fin y\<rparr>) cs"
    using bounds_points_of_decoded [of parseFloat s cs Number] by blast
  from h have cs: "cs \<noteq> []"
    using decoded_not_Nil [of parseFloat s _ cs] by blast
  have lngs: "map lng (bounds_points Number s) = map Fin (map fst cs)"
    and lats: "map lat (bounds_points Number s) = map Fin (map snd cs)"
    by (simp_all add: pts case_prod_beta)
  from cs have "map fst cs \<noteq> []" "map snd cs \<noteq> []" by simp_all
  then have mm: "Math_min (map Fin (map fst cs)) = Fin (Min (fst ` set cs))"
    "Math_min (map Fin (map snd cs)) = Fin (Min (snd ` set cs))"
    "Math_max (map Fin (map fst cs)) = Fin (Max (fst ` set cs))"
    "Math_max (map Fin (map snd cs)) = Fin (Max (snd ` set cs))"
    using Math_min_Fin [of "map fst cs"] Math_min_Fin [of "map snd cs"]
      Math_max_Fin [of "map fst cs"] Math_max_Fin [of "map snd cs"]
    by (simp_all del: map_map)
  from h show b: "calculateBounds Number (Str s)
             = Some \<lparr>southwest = \<lparr>lng = Fin (Min (fst ` set cs)), lat = Fin (Min (snd ` set cs))\<rparr>,
                     northeast = \<lparr>lng = Fin (Max (fst ` set cs)), lat = Fin (Max (snd ` set cs))\<rparr>\<rparr>"
    by (simp add: calculateBounds_def Let_def lngs lats mm del: map_map)
  show "\<forall>x y. cs = [(x, y)]
                \<longrightarrow> calculateBounds Number (Str s)
                      = Some \<lparr>southwest = \<lparr>lng = Fin x, lat = Fin y\<rparr>,
                              northeast = \<lparr>lng = Fin x, lat = Fin y\<rparr>\<rparr>"
    using b by simp
qed

theorem C8_decode_and_bounds_witness:
  "decodePolyline decimal_literal (Str ''116.1,39.1;116.0,39.5'')
     = map (\<lambda>(x, y). (Fin x, Fin y)) [(1161 / 10, 391 / 10), (116, 79 / 2)]
   \<and> calculateBounds decimal_literal (Str ''116.1,39.1;116.0,39.5'')
     = Some \<lparr>southwest = \<lparr>lng = Fin 116, lat = Fin (391 / 10)\<rparr>,
             northeast = \<lparr>lng = Fin (1161 / 10), lat = Fin (79 / 2)\<rparr>\<rparr>"
proof -
  have d: "decodePolyline decimal_literal (Str ''116.1,39.1;116.0,39.5'')
           = map (\<lambda>(x, y). (Fin x, Fin y)) [(1161 / 10, 391 / 10), (116, 79 / 2)]"
    by (simp add: decodePolyline_def decimal_literal_def is_digit_def digits_val_def)
  have a: "\<forall>pt \<in> set (split CHR '';'' ''116.1,39.1;116.0,39.5'').
             \<forall>t \<in> set (take 2 (split CHR '','' pt)). decimal_literal t = decimal_literal t"
    by simp
  have n: "''116.1,39.1;116.0,39.5'' \<noteq> []" by simp
  have mn: "Min (fst ` set [(1161 / 10 :: rat, 391 / 10 :: rat), (116, 79 / 2)]) = 116"
    "Min (snd ` set [(1161 / 10 :: rat, 391 / 10 :: rat), (116, 79 / 2)]) = 391 / 10"
    "Max (fst ` set [(1161 / 10 :: rat, 391 / 10 :: rat), (116, 79 / 2)]) = 1161 / 10"
    "Max (snd ` set [(1161 / 10 :: rat, 391 / 10 :: rat), (116, 79 / 2)]) = 79 / 2"
    by simp_all
  from C8_decode_and_bounds [of decimal_literal decimal_literal "''116.1,39.1;116.0,39.5''"
      "[(1161 / 10, 391 / 10), (116, 79 / 2)]"] d a n
  have "calculateBounds decimal_literal (Str ''116.1,39.1;116.0,39.5'')
        = Some \<lparr>southwest = \<lparr>lng = Fin (Min (fst ` set [(1161 / 10 :: rat, 391 / 10 :: rat), (116, 79 / 2)])),
                              lat = Fin (Min (snd ` set [(1161 / 10 :: rat, 391 / 10 :: rat), (116, 79 / 2)]))\<rparr>,
                northeast = \<lparr>lng = Fin (Max (fst ` set [(1161 / 10 :: rat, 391 / 10 :: rat), (116, 79 / 2)])),
                              lat = Fin (Max (snd ` set [(1161 / 10 :: rat, 391 / 10 :: rat), (116, 79 / 2)]))\<rparr>\<rparr>"
    by blast
  with d show ?thesis by (simp only: mn)
qed

subsection \<open>Creation of routes and markers\<close>

lemma route_locals_required:
  "property (route_locals now routeData) ''name''
     = default_to (property routeData ''name'') (Str (default_name_prefix @ show_nat now))"
  "property (route_locals now routeData) ''waypoints'' = property routeData ''waypoints''"
  "property (route_locals now routeData) ''start_lng'' = property routeData ''start_lng''"
  "property (route_locals now routeData) ''end_lng'' = property routeData ''end_lng''"
  by (simp_all add: route_locals_def property_def)

lemma marker_locals_required:
  "property (marker_locals routeId markerData) ''lng'' = property markerData ''lng''"
  "property (marker_locals routeId markerData) ''lat'' = property markerData ''lat''"
  "property (marker_locals routeId markerData) ''name'' = property markerData ''name''"
  by (simp_all add: marker_locals_def property_def)

text \<open>
  Claim C10. The required-field checks of the two create operations test truthiness:
  a route whose \<open>start_lng\<close> or \<open>end_lng\<close> is the number 0 is rejected with the
  required-fields error although the field is present, and so is a marker whose \<open>lng\<close>
  or \<open>lat\<close> is 0; nothing is stored.
\<close>

theorem C10_zero_coordinate_rejected:
  "(property routeData ''start_lng'' = Num (Fin 0) \<or> property routeData ''end_lng'' = Num (Fin 0)
      \<longrightarrow> saveRouteToDB (Some d) now routeData
            = (Inl (ValidationError RequiredRouteFields), Some d))
   \<and> (property markerData ''lng'' = Num (Fin 0) \<or> property markerData ''lat'' = Num (Fin 0)
      \<longrightarrow> saveRouteMarkerToDB (Some d) now routeId markerData
            = (Inl (ValidationError RequiredMarkerFields), Some d))"
  by (auto simp: saveRouteToDB_def saveRouteMarkerToDB_def Let_def
      route_locals_required marker_locals_required)

theorem C10_zero_coordinate_rejected_witness:
  "property meridian_route ''name'' = Str ''Greenwich''
   \<and> property meridian_route ''waypoints'' = Str ''[]''
   \<and> property meridian_route ''start_lng'' = Num (Fin 0)
   \<and> property meridian_route ''end_lng'' = Num (Fin (1 / 10))
   \<and> saveRouteToDB (Some initDatabase) 5123 meridian_route
       = (Inl (ValidationError RequiredRouteFields), Some initDatabase)
   \<and> property equator_marker ''lat'' = Num (Fin 0)
   \<and> saveRouteMarkerToDB (Some initDatabase) 5123 (Num (Fin 1)) equator_marker
       = (Inl (ValidationError RequiredMarkerFields), Some initDatabase)"
  using C10_zero_coordinate_rejected
    [of meridian_route initDatabase 5123 equator_marker "Num (Fin 1)"]
  by (simp add: meridian_route_def equator_marker_def property_def)

lemma new_route_row:
  "new_row routes_table rowid now (route_locals now rd) =
     [(''id'', rowid),
      (''name'', bind (default_to (property rd ''name'') (Str (default_name_prefix @ show_nat now)))),
      (''description'', bind (default_to (property rd ''description'') (Str []))),
      (''route_type'', bind (default_to (property rd ''route_type'') (Str ''driving''))),
      (''city'', bind (default_to (property rd ''city'') (Str []))),
      (''district'', bind (default_to (property rd ''district'') (Str []))),
      (''district_type'', bind (default_to (property rd ''district_type'') (Str default_district_type))),
      (''intersections'', bind (default_to (property rd ''intersections'') (Num (Fin 0)))),
      (''right_turns'', bind (default_to (property rd ''right_turns'') (Num (Fin 0)))),
      (''left_turns'', bind (default_to (property rd ''left_turns'') (Num (Fin 0)))),
      (''u_turns'', bind (default_to (property rd ''u_turns'') (Num (Fin 0)))),
      (''roundabouts'', bind (default_to (property rd ''roundabouts'') (Num (Fin 0)))),
      (''special_traffic_lights'', bind (default_to (property rd ''special_traffic_lights'') (Num (Fin 0)))),
      (''special_intersections'', bind (default_to (property rd ''special_intersections'') (Num (Fin 0)))),
      (''start_lng'', bind (property rd ''start_lng'')),
      (''start_lat'', bind (property rd ''start_lat'')),
      (''end_lng'', bind (property rd ''end_lng'')),
      (''end_lat'', bind (property rd ''end_lat'')),
      (''waypoints'', bind (property rd ''waypoints'')),
      (''distance'', bind (default_to (property rd ''distance'') (Num (Fin 0)))),
      (''duration'', bind (default_to (property rd ''duration'') (Num (Fin 0)))),
      (''polyline'', bind (default_to (property rd ''polyline'') (Str []))),
      (''steps'', bind (default_to (property rd ''steps'') (Str ''[]''))),
      (''tolls'', bind (default_to (property rd ''tolls'') (Num (Fin 0)))),
      (''traffic_lights'', bind (default_to (property rd ''traffic_lights'') (Num (Fin 0)))),
      (''created_by'', bind (default_to (property rd ''created_by'') (Str default_created_by))),
      (''created_at'', CURRENT_TIMESTAMP now),
      (''updated_at'', CURRENT_TIMESTAMP now)]"
  by code_simp

lemma new_route_row_not_null:
  "violates_not_null routes_table (new_row routes_table rowid now (route_locals now rd))
   \<longleftrightarrow> bind (default_to (property rd ''name'') (Str (default_name_prefix @ show_nat now))) = Null
       \<or> bind (property rd ''start_lng'') = Null \<or> bind (property rd ''start_lat'') = Null
       \<or> bind (property rd ''end_lng'') = Null \<or> bind (property rd ''end_lat'') = Null"
  unfolding new_route_row
  by (simp add: violates_not_null_def routes_table_def col_def property_def)

lemma truthy_bind_not_Null: "truthy v \<Longrightarrow> bind v \<noteq> Null"
proof (cases v)
  case (Num n)
  then show "truthy v \<Longrightarrow> bind v \<noteq> Null" by (cases n) simp_all
qed simp_all

lemma saveRouteToDB_Some:
  "saveRouteToDB (Some d) now rd =
     (if \<not> truthy (default_to (property rd ''name'') (Str (default_name_prefix @ show_nat now)))
         \<or> \<not> truthy (property rd ''waypoints'')
         \<or> \<not> truthy (property rd ''start_lng'') \<or> \<not> truthy (property rd ''end_lng'')
      then (Inl (ValidationError RequiredRouteFields), Some d)
      else if bind (property rd ''start_lat'') = Null \<or> bind (property rd ''end_lat'') = Null
      then (Inl SqliteConstraint, Some d)
      else (Inr (spread [(''id'', Num (Fin (of_nat (Suc (routes_seq d)))))] rd),
            Some (d\<lparr>routes := routes d @
                       [new_row routes_table (Num (Fin (of_nat (Suc (routes_seq d))))) now
                          (route_locals now rd)],
                    routes_seq := Suc (routes_seq d)\<rparr>)))"
  by (simp add: saveRouteToDB_def insert_route_def Let_def route_locals_required
      new_route_row_not_null truthy_bind_not_Null)

text \<open>
  What the check of \<open>saveRouteToDB\<close> does enforce: an input without \<open>waypoints\<close>,
  \<open>start_lng\<close> or \<open>end_lng\<close>, or with a \<open>name\<close> that is \<open>null\<close> or the empty string, is
  rejected with the required-fields error and the store is left as it was; a creation
  that succeeds had \<open>waypoints\<close>, \<open>start_lng\<close> and \<open>end_lng\<close>.
\<close>

lemma required_fields_checked:
  "(property rd ''waypoints'' = Undefined \<or> property rd ''start_lng'' = Undefined
      \<or> property rd ''end_lng'' = Undefined
      \<or> property rd ''name'' = Null \<or> property rd ''name'' = Str []
     \<longrightarrow> saveRouteToDB (Some d) now rd = (Inl (ValidationError RequiredRouteFields), Some d))
   \<and> (\<forall>res db'. saveRouteToDB (Some d) now rd = (Inr res, db')
        \<longrightarrow> property rd ''waypoints'' \<noteq> Undefined \<and> property rd ''start_lng'' \<noteq> Undefined
            \<and> property rd ''end_lng'' \<noteq> Undefined)"
proof (intro conjI impI allI)
  assume "property rd ''waypoints'' = Undefined \<or> property rd ''start_lng'' = Undefined
      \<or> property rd ''end_lng'' = Undefined
      \<or> property rd ''name'' = Null \<or> property rd ''name'' = Str []"
  then show "saveRouteToDB (Some d) now rd = (Inl (ValidationError RequiredRouteFields), Some d)"
    by (auto simp: saveRouteToDB_Some default_to_def)
next
  fix res db'
  assume ok: "saveRouteToDB (Some d) now rd = (Inr res, db')"
  then show "property rd ''waypoints'' \<noteq> Undefined" "property rd ''start_lng'' \<noteq> Undefined"
    "property rd ''end_lng'' \<noteq> Undefined"
    by (auto simp: saveRouteToDB_Some split: if_splits)
qed

lemma show_5123: "show_nat 5123 = ''5123''"
  by (simp add: show_nat.simps)

lemma nameless_route_properties:
  "property nameless_route ''name'' = Undefined"
  "property nameless_route ''waypoints'' = Str ''[[116.397,39.909],[116.407,39.919]]''"
  "property nameless_route ''start_lng'' = Num (Fin (116397 / 1000))"
  "property nameless_route ''start_lat'' = Num (Fin (39909 / 1000))"
  "property nameless_route ''end_lng'' = Num (Fin (116407 / 1000))"
  "property nameless_route ''end_lat'' = Num (Fin (39919 / 1000))"
  by (simp_all add: nameless_route_def spec_route_def property_def)

lemma save_nameless_route:
  "saveRouteToDB (Some initDatabase) 5123 nameless_route =
     (Inr ((''id'', Num (Fin 1)) # nameless_route),
      Some \<lparr>routes = [new_row routes_table (Num (Fin 1)) 5123 (route_locals 5123 nameless_route)],
            route_markers = [], routes_seq = 1, route_markers_seq = 0, foreign_keys = False\<rparr>)"
proof -
  have "spread [(''id'', Num (Fin 1))] nameless_route = (''id'', Num (Fin 1)) # nameless_route"
    by (simp add: spread_def nameless_route_def spec_route_def)
  then show ?thesis
    by (simp add: saveRouteToDB_Some nameless_route_properties default_to_def
        default_name_prefix_def initDatabase_def)
qed

text \<open>
  Claim C5 requires creation to fail when \<open>name\<close> is absent. The code tests \<open>!name\<close>
  and rejects with a message that calls the route name a required field, and the
  \<open>name\<close> column is \<open>NOT NULL\<close>; but the destructuring default has put a generated name
  in the place of an absent one before the test runs. Hence every input without
  \<open>name\<close> whose \<open>waypoints\<close>, \<open>start_lng\<close> and \<open>end_lng\<close> pass the test, and whose
  \<open>start_lat\<close> and \<open>end_lat\<close> are given, is accepted: creation succeeds and adds a row
  under the generated name (the prefix followed by the time in milliseconds).
\<close>

theorem C5_absent_name_stored:
  assumes "property rd ''name'' = Undefined"
    and "truthy (property rd ''waypoints'')"
    and "truthy (property rd ''start_lng'')" and "truthy (property rd ''end_lng'')"
    and "bind (property rd ''start_lat'') \<noteq> Null" and "bind (property rd ''end_lat'') \<noteq> Null"
  shows "\<exists>res d'. saveRouteToDB (Some d) now rd = (Inr res, Some d')
           \<and> column_values ''name'' (routes d')
               = column_values ''name'' (routes d) @ [Str (default_name_prefix @ show_nat now)]"
proof -
  have "property (new_row routes_table rowid now (route_locals now rd)) ''name''
        = Str (default_name_prefix @ show_nat now)" for rowid
    unfolding new_route_row using assms(1)
    by (simp add: property_def [of "_ # _"] default_to_def)
  then show ?thesis
    using assms
    by (simp add: saveRouteToDB_Some default_to_def default_name_prefix_def column_values_def)
qed

theorem C5_absent_name_stored_witness:
  "property nameless_route ''name'' = Undefined
   \<and> fst (saveRouteToDB (Some initDatabase) 5123 nameless_route)
       = Inr ((''id'', Num (Fin 1)) # nameless_route)
   \<and> (\<exists>res d'. saveRouteToDB (Some initDatabase) 5123 nameless_route = (Inr res, Some d')
          \<and> column_values ''name'' (routes d') = [Str (default_name_prefix @ ''5123'')])"
  using C5_absent_name_stored [of nameless_route initDatabase 5123] save_nameless_route
  by (simp add: nameless_route_properties show_5123 initDatabase_def column_values_def)

subsection \<open>Creating a route and fetching it\<close>

lemma required_only_row:
  assumes "rd = [(''name'', nm), (''waypoints'', w), (''start_lng'', a), (''start_lat'', b),
                 (''end_lng'', c), (''end_lat'', e)]"
    and "nm \<noteq> Undefined"
  shows "new_row routes_table rowid now (route_locals now rd) =
     [(''id'', rowid),
      (''name'', bind nm),
      (''description'', Str []),
      (''route_type'', Str ''driving''),
      (''city'', Str []),
      (''district'', Str []),
      (''district_type'', Str default_district_type),
      (''intersections'', Num (Fin 0)),
      (''right_turns'', Num (Fin 0)),
      (''left_turns'', Num (Fin 0)),
      (''u_turns'', Num (Fin 0)),
      (''roundabouts'', Num (Fin 0)),
      (''special_traffic_lights'', Num (Fin 0)),
      (''special_intersections'', Num (Fin 0)),
      (''start_lng'', bind a),
      (''start_lat'', bind b),
      (''end_lng'', bind c),
      (''end_lat'', bind e),
      (''waypoints'', bind w),
      (''distance'', Num (Fin 0)),
      (''duration'', Num (Fin 0)),
      (''polyline'', Str []),
      (''steps'', Str ''[]''),
      (''tolls'', Num (Fin 0)),
      (''traffic_lights'', Num (Fin 0)),
      (''created_by'', Str default_created_by),
      (''created_at'', CURRENT_TIMESTAMP now),
      (''updated_at'', CURRENT_TIMESTAMP now)]"
  unfolding new_route_row using assms by (simp add: property_def default_to_def)

lemma required_only_view:
  assumes row: "row =
     [(''id'', rowid),
      (''name'', Str n),
      (''description'', Str []),
      (''route_type'', Str ''driving''),
      (''city'', Str []),
      (''district'', Str []),
      (''district_type'', Str default_district_type),
      (''intersections'', Num (Fin 0)),
      (''right_turns'', Num (Fin 0)),
      (''left_turns'', Num (Fin 0)),
      (''u_turns'', Num (Fin 0)),
      (''roundabouts'', Num (Fin 0)),
      (''special_traffic_lights'', Num (Fin 0)),
      (''special_intersections'', Num (Fin 0)),
      (''start_lng'', Num (Fin a)),
      (''start_lat'', Num (Fin b)),
      (''end_lng'', Num (Fin c)),
      (''end_lat'', Num (Fin e)),
      (''waypoints'', Str w),
      (''distance'', Num (Fin 0)),
      (''duration'', Num (Fin 0)),
      (''polyline'', Str []),
      (''steps'', Str ''[]''),
      (''tolls'', Num (Fin 0)),
      (''traffic_lights'', Num (Fin 0)),
      (''created_by'', Str default_created_by),
      (''created_at'', ts),
      (''updated_at'', ts)]"
    and w: "w \<noteq> []" "JSON_parse (Str w) = Some wps" "JSON_parse (Str ''[]'') = Some sts"
  shows "present_route JSON_parse (property row ''created_by'') row =
     Some \<lparr>rv_fields =
       [(''id'', rowid),
        (''name'', Str n),
        (''description'', Str []),
        (''route_type'', Str ''driving''),
        (''city'', Str []),
        (''district'', Str []),
        (''district_type'', Str default_district_type),
        (''intersections'', Num (Fin 0)),
        (''right_turns'', Num (Fin 0)),
        (''left_turns'', Num (Fin 0)),
        (''u_turns'', Num (Fin 0)),
        (''roundabouts'', Num (Fin 0)),
        (''special_traffic_lights'', Num (Fin 0)),
        (''special_intersections'', Num (Fin 0)),
        (''start_lng'', Num (Fin a)),
        (''start_lat'', Num (Fin b)),
        (''end_lng'', Num (Fin c)),
        (''end_lat'', Num (Fin e)),
        (''distance'', Num (Fin 0)),
        (''duration'', Num (Fin 0)),
        (''polyline'', Str []),
        (''tolls'', Num (Fin 0)),
        (''traffic_lights'', Num (Fin 0)),
        (''created_by'', Str default_created_by),
        (''created_at'', ts),
        (''updated_at'', ts),
        (''creator'', Str default_created_by)],
       rv_waypoints = wps, rv_steps = sts\<rparr>"
proof -
  have p: "property row ''waypoints'' = Str w" "property row ''steps'' = Str ''[]''"
    "property row ''created_by'' = Str default_created_by"
    "property row ''polyline'' = Str []" "property row ''city'' = Str []"
    "property row ''district'' = Str []"
    "property row ''district_type'' = Str default_district_type"
    "property row ''intersections'' = Num (Fin 0)" "property row ''right_turns'' = Num (Fin 0)"
    "property row ''left_turns'' = Num (Fin 0)" "property row ''u_turns'' = Num (Fin 0)"
    "property row ''roundabouts'' = Num (Fin 0)"
    "property row ''special_traffic_lights'' = Num (Fin 0)"
    "property row ''special_intersections'' = Num (Fin 0)"
    by (simp_all add: row property_def)
  have del: "AList.delete ''waypoints'' (AList.delete ''steps'' row) =
     [(''id'', rowid),
      (''name'', Str n),
      (''description'', Str []),
      (''route_type'', Str ''driving''),
      (''city'', Str []),
      (''district'', Str []),
      (''district_type'', Str default_district_type),
      (''intersections'', Num (Fin 0)),
      (''right_turns'', Num (Fin 0)),
      (''left_turns'', Num (Fin 0)),
      (''u_turns'', Num (Fin 0)),
      (''roundabouts'', Num (Fin 0)),
      (''special_traffic_lights'', Num (Fin 0)),
      (''special_intersections'', Num (Fin 0)),
      (''start_lng'', Num (Fin a)),
      (''start_lat'', Num (Fin b)),
      (''end_lng'', Num (Fin c)),
      (''end_lat'', Num (Fin e)),
      (''distance'', Num (Fin 0)),
      (''duration'', Num (Fin 0)),
      (''polyline'', Str []),
      (''tolls'', Num (Fin 0)),
      (''traffic_lights'', Num (Fin 0)),
      (''created_by'', Str default_created_by),
      (''created_at'', ts),
      (''updated_at'', ts)]"
    by (simp add: row AList.delete_eq)
  have dt: "default_district_type \<noteq> []"
    by (simp add: default_district_type_def)
  show ?thesis
    unfolding present_route_def p del
    by (simp add: parse_or_empty_def w js_or_def dt spread_def)
qed

lemma create_then_fetch:
  assumes rd: "rd = [(''name'', Str n), (''waypoints'', Str w), (''start_lng'', Num (Fin a)),
                     (''start_lat'', Num (Fin b)), (''end_lng'', Num (Fin c)),
                     (''end_lat'', Num (Fin e))]"
    and ne: "n \<noteq> []" "w \<noteq> []" "a \<noteq> 0" "c \<noteq> 0"
    and parse: "JSON_parse (Str w) = Some wps" "JSON_parse (Str ''[]'') = Some sts"
    and fresh: "\<forall>r \<in> set (routes d). property r ''id'' \<noteq> Num (Fin (of_nat (Suc (routes_seq d))))"
  shows "\<exists>res d' view.
           saveRouteToDB (Some d) now rd = (Inr res, Some d')
           \<and> getRouteByIdFromDB JSON_parse (Some d') (property res ''id'') = Inr view
           \<and> rv_fields view =
               [(''id'', Num (Fin (of_nat (Suc (routes_seq d))))),
               (''name'', Str n),
               (''description'', Str []),
               (''route_type'', Str ''driving''),
               (''city'', Str []),
               (''district'', Str []),
               (''district_type'', Str default_district_type),
               (''intersections'', Num (Fin 0)),
               (''right_turns'', Num (Fin 0)),
               (''left_turns'', Num (Fin 0)),
               (''u_turns'', Num (Fin 0)),
               (''roundabouts'', Num (Fin 0)),
               (''special_traffic_lights'', Num (Fin 0)),
               (''special_intersections'', Num (Fin 0)),
               (''start_lng'', Num (Fin a)),
               (''start_lat'', Num (Fin b)),
               (''end_lng'', Num (Fin c)),
               (''end_lat'', Num (Fin e)),
               (''distance'', Num (Fin 0)),
               (''duration'', Num (Fin 0)),
               (''polyline'', Str []),
               (''tolls'', Num (Fin 0)),
               (''traffic_lights'', Num (Fin 0)),
               (''created_by'', Str default_created_by),
               (''created_at'', CURRENT_TIMESTAMP now),
               (''updated_at'', CURRENT_TIMESTAMP now),
               (''creator'', Str default_created_by)]
           \<and> rv_waypoints view = wps"
proof -
  define lastID where "lastID = Num (Fin (of_nat (Suc (routes_seq d))))"
  define row where "row = new_row routes_table lastID now (route_locals now rd)"
  define d' where "d' = d\<lparr>routes := routes d @ [row], routes_seq := Suc (routes_seq d)\<rparr>"
  have props: "property rd ''name'' = Str n" "property rd ''waypoints'' = Str w"
    "property rd ''start_lng'' = Num (Fin a)" "property rd ''start_lat'' = Num (Fin b)"
    "property rd ''end_lng'' = Num (Fin c)" "property rd ''end_lat'' = Num (Fin e)"
    by (simp_all add: rd property_def)
  have save: "saveRouteToDB (Some d) now rd = (Inr (spread [(''id'', lastID)] rd), Some d')"
    by (simp add: saveRouteToDB_Some props default_to_def ne d'_def row_def lastID_def)
  have rid: "property (spread [(''id'', lastID)] rd) ''id'' = lastID"
    by (simp add: rd spread_def property_def)
  have row: "row =
     [(''id'', lastID),
      (''name'', Str n),
      (''description'', Str []),
      (''route_type'', Str ''driving''),
      (''city'', Str []),
      (''district'', Str []),
      (''district_type'', Str default_district_type),
      (''intersections'', Num (Fin 0)),
      (''right_turns'', Num (Fin 0)),
      (''left_turns'', Num (Fin 0)),
      (''u_turns'', Num (Fin 0)),
      (''roundabouts'', Num (Fin 0)),
      (''special_traffic_lights'', Num (Fin 0)),
      (''special_intersections'', Num (Fin 0)),
      (''start_lng'', Num (Fin a)),
      (''start_lat'', Num (Fin b)),
      (''end_lng'', Num (Fin c)),
      (''end_lat'', Num (Fin e)),
      (''waypoints'', Str w),
      (''distance'', Num (Fin 0)),
      (''duration'', Num (Fin 0)),
      (''polyline'', Str []),
      (''steps'', Str ''[]''),
      (''tolls'', Num (Fin 0)),
      (''traffic_lights'', Num (Fin 0)),
      (''created_by'', Str default_created_by),
      (''created_at'', CURRENT_TIMESTAMP now),
      (''updated_at'', CURRENT_TIMESTAMP now)]"
    unfolding row_def using required_only_row [OF rd, of lastID now] by simp
  have row_id: "property row ''id'' = lastID"
    by (simp add: row property_def)
  have old: "filter (\<lambda>r. sql_eq (property r ''id'') (bind lastID)) (routes d) = []"
    using fresh by (auto simp: filter_empty_conv sql_eq_def lastID_def)
  have hit: "sql_eq (property row ''id'') (bind lastID)"
    by (simp add: row_id sql_eq_def) (simp add: lastID_def)
  from old hit
  have flt: "filter (\<lambda>r. sql_eq (property r ''id'') (bind lastID)) (routes d') = [row]"
    by (simp add: d'_def)
  obtain view where view: "present_route JSON_parse (property row ''created_by'') row = Some view"
    and fields: "rv_fields view =
       [(''id'', lastID),
        (''name'', Str n),
        (''description'', Str []),
        (''route_type'', Str ''driving''),
        (''city'', Str []),
        (''district'', Str []),
        (''district_type'', Str default_district_type),
        (''intersections'', Num (Fin 0)),
        (''right_turns'', Num (Fin 0)),
        (''left_turns'', Num (Fin 0)),
        (''u_turns'', Num (Fin 0)),
        (''roundabouts'', Num (Fin 0)),
        (''special_traffic_lights'', Num (Fin 0)),
        (''special_intersections'', Num (Fin 0)),
        (''start_lng'', Num (Fin a)),
        (''start_lat'', Num (Fin b)),
        (''end_lng'', Num (Fin c)),
        (''end_lat'', Num (Fin e)),
        (''distance'', Num (Fin 0)),
        (''duration'', Num (Fin 0)),
        (''polyline'', Str []),
        (''tolls'', Num (Fin 0)),
        (''traffic_lights'', Num (Fin 0)),
        (''created_by'', Str default_created_by),
        (''created_at'', CURRENT_TIMESTAMP now),
        (''updated_at'', CURRENT_TIMESTAMP now),
        (''creator'', Str default_created_by)]"
    and wp: "rv_waypoints view = wps"
    using required_only_view [OF row ne(2) parse] by simp
  have lid: "property (rv_fields view) ''id'' = lastID"
    by (simp add: fields property_def)
  have get: "getRouteByIdFromDB JSON_parse (Some d') lastID = Inr view"
    by (simp add: getRouteByIdFromDB_def flt view)
  from save rid get wp fields show ?thesis unfolding lastID_def by auto
qed

text \<open>
  Claim C9, as amended. A route created from exactly the required fields (a non-empty
  name, way-points as JSON text, non-zero start and end longitudes, and the two
  latitudes) is stored and, fetched by the id that creation returned, has the given
  name, every traffic-feature counter equal to 0, \<open>route_type\<close> \<open>driving\<close>, the
  default district type, and as \<open>created_by\<close> (and \<open>creator\<close>) the default attribution
  of \<open>saveRouteToDB\<close>: the column default \<open>system\<close> is never used, because the \<open>INSERT\<close>
  always supplies \<open>created_by\<close>.
\<close>

theorem C9_created_then_fetched:
  assumes rd: "rd = [(''name'', Str n), (''waypoints'', Str w), (''start_lng'', Num (Fin a)),
                     (''start_lat'', Num (Fin b)), (''end_lng'', Num (Fin c)),
                     (''end_lat'', Num (Fin e))]"
    and ne: "n \<noteq> []" "w \<noteq> []" "a \<noteq> 0" "c \<noteq> 0"
    and parse: "JSON_parse (Str w) = Some wps" "JSON_parse (Str ''[]'') = Some sts"
    and fresh: "\<forall>r \<in> set (routes d). property r ''id'' \<noteq> Num (Fin (of_nat (Suc (routes_seq d))))"
  shows "\<exists>res d' view.
           saveRouteToDB (Some d) now rd = (Inr res, Some d')
           \<and> getRouteByIdFromDB JSON_parse (Some d') (property res ''id'') = Inr view
           \<and> property (rv_fields view) ''name'' = Str n
           \<and> property (rv_fields view) ''intersections'' = Num (Fin 0)
           \<and> property (rv_fields view) ''right_turns'' = Num (Fin 0)
           \<and> property (rv_fields view) ''left_turns'' = Num (Fin 0)
           \<and> property (rv_fields view) ''u_turns'' = Num (Fin 0)
           \<and> property (rv_fields view) ''roundabouts'' = Num (Fin 0)
           \<and> property (rv_fields view) ''special_traffic_lights'' = Num (Fin 0)
           \<and> property (rv_fields view) ''special_intersections'' = Num (Fin 0)
           \<and> property (rv_fields view) ''route_type'' = Str ''driving''
           \<and> property (rv_fields view) ''district_type'' = Str default_district_type
           \<and> property (rv_fields view) ''created_by'' = Str default_created_by
           \<and> property (rv_fields view) ''creator'' = Str default_created_by
           \<and> rv_waypoints view = wps"
proof -
  from create_then_fetch [OF assms, of now]
  obtain res d' view where
    "saveRouteToDB (Some d) now rd = (Inr res, Some d')"
    "getRouteByIdFromDB JSON_parse (Some d') (property res ''id'') = Inr view"
    "rv_waypoints view = wps"
    and fields: "rv_fields view =
       [(''id'', Num (Fin (of_nat (Suc (routes_seq d))))),
        (''name'', Str n),
        (''description'', Str []),
        (''route_type'', Str ''driving''),
        (''city'', Str []),
        (''district'', Str []),
        (''district_type'', Str default_district_type),
        (''intersections'', Num (Fin 0)),
        (''right_turns'', Num (Fin 0)),
        (''left_turns'', Num (Fin 0)),
        (''u_turns'', Num (Fin 0)),
        (''roundabouts'', Num (Fin 0)),
        (''special_traffic_lights'', Num (Fin 0)),
        (''special_intersections'', Num (Fin 0)),
        (''start_lng'', Num (Fin a)),
        (''start_lat'', Num (Fin b)),
        (''end_lng'', Num (Fin c)),
        (''end_lat'', Num (Fin e)),
        (''distance'', Num (Fin 0)),
        (''duration'', Num (Fin 0)),
        (''polyline'', Str []),
        (''tolls'', Num (Fin 0)),
        (''traffic_lights'', Num (Fin 0)),
        (''created_by'', Str default_created_by),
        (''created_at'', CURRENT_TIMESTAMP now),
        (''updated_at'', CURRENT_TIMESTAMP now),
        (''creator'', Str default_created_by)]"
    by blast
  moreover have "property (rv_fields view) ''name'' = Str n"
    "property (rv_fields view) ''intersections'' = Num (Fin 0)"
    "property (rv_fields view) ''right_turns'' = Num (Fin 0)"
    "property (rv_fields view) ''left_turns'' = Num (Fin 0)"
    "property (rv_fields view) ''u_turns'' = Num (Fin 0)"
    "property (rv_fields view) ''roundabouts'' = Num (Fin 0)"
    "property (rv_fields view) ''special_traffic_lights'' = Num (Fin 0)"
    "property (rv_fields view) ''special_intersections'' = Num (Fin 0)"
    "property (rv_fields view) ''route_type'' = Str ''driving''"
    "property (rv_fields view) ''district_type'' = Str default_district_type"
    "property (rv_fields view) ''created_by'' = Str default_created_by"
    "property (rv_fields view) ''creator'' = Str default_created_by"
    by (simp_all add: fields property_def)
  ultimately show ?thesis by blast
qed

lemma fetched_spec_route_fields:
  "\<exists>view. fetched_spec_route = Inr view
     \<and> rv_fields view =
         [(''id'', Num (Fin 1)),
          (''name'', Str ''A''),
          (''description'', Str []),
          (''route_type'', Str ''driving''),
          (''city'', Str []),
          (''district'', Str []),
          (''district_type'', Str default_district_type),
          (''intersections'', Num (Fin 0)),
          (''right_turns'', Num (Fin 0)),
          (''left_turns'', Num (Fin 0)),
          (''u_turns'', Num (Fin 0)),
          (''roundabouts'', Num (Fin 0)),
          (''special_traffic_lights'', Num (Fin 0)),
          (''special_intersections'', Num (Fin 0)),
          (''start_lng'', Num (Fin (116397 / 1000))),
          (''start_lat'', Num (Fin (39909 / 1000))),
          (''end_lng'', Num (Fin (116407 / 1000))),
          (''end_lat'', Num (Fin (39919 / 1000))),
          (''distance'', Num (Fin 0)),
          (''duration'', Num (Fin 0)),
          (''polyline'', Str []),
          (''tolls'', Num (Fin 0)),
          (''traffic_lights'', Num (Fin 0)),
          (''created_by'', Str default_created_by),
          (''created_at'', CURRENT_TIMESTAMP 5123),
          (''updated_at'', CURRENT_TIMESTAMP 5123),
          (''creator'', Str default_created_by)]"
proof -
  have fresh: "\<forall>r \<in> set (routes initDatabase).
          property r ''id'' \<noteq> Num (Fin (of_nat (Suc (routes_seq initDatabase))))"
    by (simp add: initDatabase_def)
  have p1: "sample_JSON_parse (Str ''[[116.397,39.909],[116.407,39.919]]'')
            = Some (JArr [JArr [JNum (116397 / 1000), JNum (39909 / 1000)],
                          JArr [JNum (116407 / 1000), JNum (39919 / 1000)]])"
    and p2: "sample_JSON_parse (Str ''[]'') = Some (JArr [])"
    by (simp_all add: sample_JSON_parse_def)
  have ne: "''A'' \<noteq> []" "''[[116.397,39.909],[116.407,39.919]]'' \<noteq> []"
    "(116397 / 1000 :: rat) \<noteq> 0" "(116407 / 1000 :: rat) \<noteq> 0"
    by simp_all
  from create_then_fetch [OF spec_route_def ne p1 p2 fresh, of 5123]
  obtain res d' view where
    "saveRouteToDB (Some initDatabase) 5123 spec_route = (Inr res, Some d')"
    "getRouteByIdFromDB sample_JSON_parse (Some d') (property res ''id'') = Inr view"
    "rv_fields view =
         [(''id'', Num (Fin (of_nat (Suc (routes_seq initDatabase))))),
          (''name'', Str ''A''),
          (''description'', Str []),
          (''route_type'', Str ''driving''),
          (''city'', Str []),
          (''district'', Str []),
          (''district_type'', Str default_district_type),
          (''intersections'', Num (Fin 0)),
          (''right_turns'', Num (Fin 0)),
          (''left_turns'', Num (Fin 0)),
          (''u_turns'', Num (Fin 0)),
          (''roundabouts'', Num (Fin 0)),
          (''special_traffic_lights'', Num (Fin 0)),
          (''special_intersections'', Num (Fin 0)),
          (''start_lng'', Num (Fin (116397 / 1000))),
          (''start_lat'', Num (Fin (39909 / 1000))),
          (''end_lng'', Num (Fin (116407 / 1000))),
          (''end_lat'', Num (Fin (39919 / 1000))),
          (''distance'', Num (Fin 0)),
          (''duration'', Num (Fin 0)),
          (''polyline'', Str []),
          (''tolls'', Num (Fin 0)),
          (''traffic_lights'', Num (Fin 0)),
          (''created_by'', Str default_created_by),
          (''created_at'', CURRENT_TIMESTAMP 5123),
          (''updated_at'', CURRENT_TIMESTAMP 5123),
          (''creator'', Str default_created_by)]"
    by blast
  then show ?thesis
    by (simp add: fetched_spec_route_def created_spec_route_def initDatabase_def)
qed

theorem C9_created_by_counterexample:
  "fetched_field ''name'' = Inr (Str ''A'')
   \<and> fetched_field ''intersections'' = Inr (Num (Fin 0))
   \<and> fetched_field ''created_by'' = Inr (Str default_created_by)
   \<and> fetched_field ''created_by'' \<noteq> Inr (Str ''system'')"
proof -
  from fetched_spec_route_fields obtain view where f: "fetched_spec_route = Inr view"
    and fields: "rv_fields view =
         [(''id'', Num (Fin 1)),
          (''name'', Str ''A''),
          (''description'', Str []),
          (''route_type'', Str ''driving''),
          (''city'', Str []),
          (''district'', Str []),
          (''district_type'', Str default_district_type),
          (''intersections'', Num (Fin 0)),
          (''right_turns'', Num (Fin 0)),
          (''left_turns'', Num (Fin 0)),
          (''u_turns'', Num (Fin 0)),
          (''roundabouts'', Num (Fin 0)),
          (''special_traffic_lights'', Num (Fin 0)),
          (''special_intersections'', Num (Fin 0)),
          (''start_lng'', Num (Fin (116397 / 1000))),
          (''start_lat'', Num (Fin (39909 / 1000))),
          (''end_lng'', Num (Fin (116407 / 1000))),
          (''end_lat'', Num (Fin (39919 / 1000))),
          (''distance'', Num (Fin 0)),
          (''duration'', Num (Fin 0)),
          (''polyline'', Str []),
          (''tolls'', Num (Fin 0)),
          (''traffic_lights'', Num (Fin 0)),
          (''created_by'', Str default_created_by),
          (''created_at'', CURRENT_TIMESTAMP 5123),
          (''updated_at'', CURRENT_TIMESTAMP 5123),
          (''creator'', Str default_created_by)]"
    by blast
  have "fetched_field ''name'' = Inr (Str ''A'')"
    "fetched_field ''intersections'' = Inr (Num (Fin 0))"
    "fetched_field ''created_by'' = Inr (Str default_created_by)"
    by (simp_all add: fetched_field_def f fields property_def)
  then show ?thesis by (simp add: default_created_by_def)
qed

theorem C9_created_then_fetched_witness:
  "\<exists>res d' view.
     saveRouteToDB (Some initDatabase) 5123 spec_route = (Inr res, Some d')
     \<and> getRouteByIdFromDB sample_JSON_parse (Some d') (property res ''id'') = Inr view
     \<and> property (rv_fields view) ''name'' = Str ''A''
     \<and> property (rv_fields view) ''intersections'' = Num (Fin 0)
     \<and> property (rv_fields view) ''route_type'' = Str ''driving''
     \<and> property (rv_fields view) ''district_type'' = Str default_district_type
     \<and> property (rv_fields view) ''created_by'' = Str default_created_by
     \<and> rv_waypoints view = JArr [JArr [JNum (116397 / 1000), JNum (39909 / 1000)],
                                    JArr [JNum (116407 / 1000), JNum (39919 / 1000)]]"
proof -
  have fresh: "\<forall>r \<in> set (routes initDatabase).
          property r ''id'' \<noteq> Num (Fin (of_nat (Suc (routes_seq initDatabase))))"
    by (simp add: initDatabase_def)
  have p1: "sample_JSON_parse (Str ''[[116.397,39.909],[116.407,39.919]]'')
            = Some (JArr [JArr [JNum (116397 / 1000), JNum (39909 / 1000)],
                          JArr [JNum (116407 / 1000), JNum (39919 / 1000)]])"
    and p2: "sample_JSON_parse (Str ''[]'') = Some (JArr [])"
    by (simp_all add: sample_JSON_parse_def)
  have ne: "''A'' \<noteq> []" "''[[116.397,39.909],[116.407,39.919]]'' \<noteq> []"
    "(116397 / 1000 :: rat) \<noteq> 0" "(116407 / 1000 :: rat) \<noteq> 0"
    by simp_all
  from C9_created_then_fetched [OF spec_route_def ne p1 p2 fresh, of 5123]
  show ?thesis by blast
qed

subsection \<open>Updating a route\<close>

lemma property_update:
  "property (AList.update k v row) c = (if c = k then v else property row c)"
  by (simp add: property_def update_conv')

lemma property_foldl_update:
  "property (foldl (\<lambda>r (k, v). AList.update k (bind v) r) row a) c
     = (case map_of (rev a) c of Some v \<Rightarrow> bind v | None \<Rightarrow> property row c)"
proof (induction a arbitrary: row)
  case Nil
  show ?case by simp
next
  case (Cons kv a)
  obtain k v where kv: "kv = (k, v)" by (cases kv)
  show ?case
    by (simp add: kv Cons.IH property_update map_add_def split: option.splits)
qed

lemma creator_not_allowed: "''creator'' \<notin> set allowedFields"
  by (simp add: allowedFields_def)

lemma update_fields_eq:
  "update_fields updates
     = map (\<lambda>k. (k, property updates k)) (filter (\<lambda>k. k \<in> set allowedFields) (map fst updates))"
proof -
  have "concat (map (\<lambda>key.
               if key \<in> set allowedFields
               then (if key = ''description'' then [(''description'', g key)]
                     else if key = ''creator'' then [(''created_by'', g key)]
                     else [(key, g key)])
               else []) ks)
        = map (\<lambda>k. (k, g k)) (filter (\<lambda>k. k \<in> set allowedFields) ks)"
    for g :: "string \<Rightarrow> jsval" and ks
    using creator_not_allowed by (induction ks) auto
  then show ?thesis unfolding update_fields_def by blast
qed

lemma map_of_update_fields:
  "map_of (rev (update_fields updates)) c
     = (if c \<in> set allowedFields \<and> c \<in> fst ` set updates then Some (property updates c) else None)"
proof -
  have "map_of (map (\<lambda>k. (k, g k)) ks) c = (if c \<in> set ks then Some (g c) else None)"
    for g :: "string \<Rightarrow> jsval" and ks
    by (induction ks) auto
  from this [of "property updates" "rev (filter (\<lambda>k. k \<in> set allowedFields) (map fst updates))"]
  show ?thesis by (simp add: update_fields_eq rev_map)
qed

lemma property_set_columns:
  "property (set_columns now (update_fields updates) row) c
     = (if c = ''updated_at'' then CURRENT_TIMESTAMP now
        else if c \<in> set allowedFields \<and> c \<in> fst ` set updates then bind (property updates c)
        else property row c)"
  by (simp add: set_columns_def property_update property_foldl_update map_of_update_fields)

lemma update_fields_empty:
  "update_fields updates = [] \<longleftrightarrow> (\<forall>k \<in> fst ` set updates. k \<notin> set allowedFields)"
  by (auto simp: update_fields_eq filter_empty_conv)

lemma property_filter_keys:
  "P k \<Longrightarrow> property (filter (\<lambda>kv. P (fst kv)) ob) k = property ob k"
  by (induction ob) (auto simp: property_def)

lemma update_fields_filter:
  "update_fields (filter (\<lambda>kv. fst kv \<in> set allowedFields) updates) = update_fields updates"
proof -
  have keys: "map fst (filter (\<lambda>kv. fst kv \<in> set allowedFields) updates)
              = filter (\<lambda>k. k \<in> set allowedFields) (map fst updates)"
    by (induction updates) auto
  show ?thesis
    unfolding update_fields_eq keys
    by (rule map_cong) (simp_all add: property_filter_keys [of "\<lambda>k. k \<in> set allowedFields"])
qed

lemma updateRouteInDB_Some:
  "updateRouteInDB (Some d) now rid updates =
     (if \<forall>k \<in> fst ` set updates. k \<notin> set allowedFields
      then (Inl (ValidationError NoValidUpdateFields), Some d)
      else (case update_routes d now (update_fields updates) rid of
              Inl err \<Rightarrow> (Inl err, Some d)
            | Inr (n, d') \<Rightarrow> (Inr \<lparr>cr_id = rid, changes = n\<rparr>, Some d')))"
  using update_fields_empty [of updates]
  by (simp add: updateRouteInDB_def Let_def)

text \<open>
  Claim C4. For every route update: keys outside the allow-list make no difference to
  the outcome; with no allow-listed key the call fails with the no-valid-fields
  validation error and the store is unchanged; with an allow-listed key and no row of
  that id the call succeeds with 0 rows affected and the store is unchanged; and
  whenever the call succeeds, each row of that id has \<open>updated_at\<close> set to the current
  time, every submitted allow-listed column set to the value submitted, and every other
  column as before, while rows of other ids are untouched.
\<close>

theorem C4_route_update:
  "updateRouteInDB (Some d) now rid updates
     = updateRouteInDB (Some d) now rid (filter (\<lambda>kv. fst kv \<in> set allowedFields) updates)
   \<and> ((\<forall>k \<in> fst ` set updates. k \<notin> set allowedFields)
        \<longrightarrow> updateRouteInDB (Some d) now rid updates
              = (Inl (ValidationError NoValidUpdateFields), Some d))
   \<and> ((\<exists>k \<in> fst ` set updates. k \<in> set allowedFields)
        \<and> (\<forall>r \<in> set (routes d). \<not> sql_eq (property r ''id'') (bind rid))
        \<longrightarrow> updateRouteInDB (Some d) now rid updates = (Inr \<lparr>cr_id = rid, changes = 0\<rparr>, Some d))
   \<and> (\<forall>res d'. updateRouteInDB (Some d) now rid updates = (Inr res, Some d')
        \<longrightarrow> cr_id res = rid
            \<and> changes res = length (filter (\<lambda>r. sql_eq (property r ''id'') (bind rid)) (routes d))
            \<and> length (routes d') = length (routes d)
            \<and> (\<forall>i < length (routes d).
                  if sql_eq (property (routes d ! i) ''id'') (bind rid)
                  then \<forall>c. property (routes d' ! i) c
                         = (if c = ''updated_at'' then CURRENT_TIMESTAMP now
                            else if c \<in> set allowedFields \<and> c \<in> fst ` set updates
                            then bind (property updates c)
                            else property (routes d ! i) c)
                  else routes d' ! i = routes d ! i))"
proof (intro conjI impI allI)
  have "(\<forall>k \<in> fst ` set (filter (\<lambda>kv. fst kv \<in> set allowedFields) updates). k \<notin> set allowedFields)
        \<longleftrightarrow> (\<forall>k \<in> fst ` set updates. k \<notin> set allowedFields)"
    by auto
  then show "updateRouteInDB (Some d) now rid updates
     = updateRouteInDB (Some d) now rid (filter (\<lambda>kv. fst kv \<in> set allowedFields) updates)"
    unfolding updateRouteInDB_Some update_fields_filter by simp
next
  assume "\<forall>k \<in> fst ` set updates. k \<notin> set allowedFields"
  then show "updateRouteInDB (Some d) now rid updates
              = (Inl (ValidationError NoValidUpdateFields), Some d)"
    by (simp add: updateRouteInDB_Some)
next
  assume h: "(\<exists>k \<in> fst ` set updates. k \<in> set allowedFields)
        \<and> (\<forall>r \<in> set (routes d). \<not> sql_eq (property r ''id'') (bind rid))"
  then have none: "\<forall>r \<in> set (routes d). \<not> sql_eq (property r ''id'') (bind rid)"
    by blast
  then have same: "map (\<lambda>r. if sql_eq (property r ''id'') (bind rid)
                             then set_columns now (update_fields updates) r else r) (routes d)
                   = routes d"
    by (simp add: map_idI)
  from none have "update_routes d now (update_fields updates) rid = Inr (0, d)"
    by (simp add: update_routes_def Let_def same list_ex_iff)
  with h show "updateRouteInDB (Some d) now rid updates = (Inr \<lparr>cr_id = rid, changes = 0\<rparr>, Some d)"
    by (auto simp: updateRouteInDB_Some)
next
  fix res d'
  assume ok: "updateRouteInDB (Some d) now rid updates = (Inr res, Some d')"
  then have run: "update_routes d now (update_fields updates) rid = Inr (changes res, d')"
    and rid: "cr_id res = rid"
    by (auto simp: updateRouteInDB_Some split: if_splits sum.splits)
  from run have n: "changes res = length (filter (\<lambda>r. sql_eq (property r ''id'') (bind rid)) (routes d))"
    and rows: "routes d' = map (\<lambda>r. if sql_eq (property r ''id'') (bind rid)
                                      then set_columns now (update_fields updates) r else r) (routes d)"
    by (auto simp: update_routes_def Let_def split: if_splits)
  show "cr_id res = rid" by (rule rid)
  show "changes res = length (filter (\<lambda>r. sql_eq (property r ''id'') (bind rid)) (routes d))"
    by (rule n)
  show "length (routes d') = length (routes d)"
    by (simp add: rows)
  fix i
  assume "i < length (routes d)"
  then show "if sql_eq (property (routes d ! i) ''id'') (bind rid)
                  then \<forall>c. property (routes d' ! i) c
                         = (if c = ''updated_at'' then CURRENT_TIMESTAMP now
                            else if c \<in> set allowedFields \<and> c \<in> fst ` set updates
                            then bind (property updates c)
                            else property (routes d ! i) c)
                  else routes d' ! i = routes d ! i"
    by (simp add: rows property_set_columns)
qed

lemma spec_route_properties:
  "property spec_route ''name'' = Str ''A''"
  "property spec_route ''waypoints'' = Str ''[[116.397,39.909],[116.407,39.919]]''"
  "property spec_route ''start_lng'' = Num (Fin (116397 / 1000))"
  "property spec_route ''start_lat'' = Num (Fin (39909 / 1000))"
  "property spec_route ''end_lng'' = Num (Fin (116407 / 1000))"
  "property spec_route ''end_lat'' = Num (Fin (39919 / 1000))"
  by (simp_all add: spec_route_def property_def)

lemma created_spec_route_eq:
  "created_spec_route = (Inr ((''id'', Num (Fin 1)) # spec_route), Some one_route_db)"
proof -
  have row: "new_row routes_table (Num (Fin 1)) 5123 (route_locals 5123 spec_route) = stored_spec_route"
    unfolding stored_spec_route_def
    using required_only_row [OF spec_route_def, of "Num (Fin 1)" 5123] by simp
  have sp: "spread [(''id'', Num (Fin 1))] spec_route = (''id'', Num (Fin 1)) # spec_route"
    by (simp add: spread_def spec_route_def)
  show ?thesis
    by (simp add: created_spec_route_def saveRouteToDB_Some spec_route_properties default_to_def
        initDatabase_def row sp one_route_db_def)
qed

lemma stored_spec_route_not_null:
  "property stored_spec_route ''id'' = Num (Fin 1)"
  "property stored_spec_route ''name'' = Str ''A''"
  "property stored_spec_route ''start_lng'' = Num (Fin (116397 / 1000))"
  "property stored_spec_route ''start_lat'' = Num (Fin (39909 / 1000))"
  "property stored_spec_route ''end_lng'' = Num (Fin (116407 / 1000))"
  "property stored_spec_route ''end_lat'' = Num (Fin (39919 / 1000))"
  "property stored_spec_route ''created_by'' = Str default_created_by"
  "property stored_spec_route ''bogusField'' = Undefined"
  by (simp_all add: stored_spec_route_def property_def)

lemma rename_spec_route:
  "\<exists>d'. updateRouteInDB (Some one_route_db) 9000 (Num (Fin 1))
           [(''bogusField'', Num (Fin 1)), (''name'', Str ''x'')]
         = (Inr \<lparr>cr_id = Num (Fin 1), changes = 1\<rparr>, Some d')"
proof -
  have allowed: "''name'' \<in> set allowedFields" "''bogusField'' \<notin> set allowedFields"
    "''start_lng'' \<in> set allowedFields" "''start_lat'' \<in> set allowedFields"
    "''end_lng'' \<in> set allowedFields" "''end_lat'' \<in> set allowedFields"
    by (simp_all add: allowedFields_def)
  have nn: "filter not_null routes_table
            = [col ''name'' True NoDefault, col ''start_lng'' True NoDefault,
               col ''start_lat'' True NoDefault, col ''end_lng'' True NoDefault,
               col ''end_lat'' True NoDefault]"
    by (simp add: routes_table_def col_def)
  have nm: "property [(''bogusField'', Num (Fin 1)), (''name'', Str ''x'')] ''name'' = Str ''x''"
    by (simp add: property_def)
  have ok: "\<not> violates_not_null routes_table
              (set_columns 9000 (update_fields [(''bogusField'', Num (Fin 1)), (''name'', Str ''x'')])
                 stored_spec_route)"
    unfolding violates_not_null_def nn
    by (simp add: col_def property_set_columns allowed stored_spec_route_not_null nm)
  have hit: "sql_eq (property stored_spec_route ''id'') (bind (Num (Fin 1)))"
    by (simp add: stored_spec_route_not_null sql_eq_def)
  have "\<exists>d'. update_routes one_route_db 9000
               (update_fields [(''bogusField'', Num (Fin 1)), (''name'', Str ''x'')]) (Num (Fin 1))
             = Inr (1, d')"
    using ok hit by (simp add: update_routes_def one_route_db_def)
  then show ?thesis
    using allowed by (auto simp: updateRouteInDB_Some)
qed

theorem C4_route_update_witness:
  "snd created_spec_route = Some one_route_db
   \<and> updateRouteInDB (Some one_route_db) 9000 (Num (Fin 1)) [(''bogusField'', Num (Fin 1))]
       = (Inl (ValidationError NoValidUpdateFields), Some one_route_db)
   \<and> updateRouteInDB (Some one_route_db) 9000 (Num (Fin 99)) [(''name'', Str ''x'')]
       = (Inr \<lparr>cr_id = Num (Fin 99), changes = 0\<rparr>, Some one_route_db)
   \<and> (\<exists>d'. updateRouteInDB (Some one_route_db) 9000 (Num (Fin 1))
               [(''bogusField'', Num (Fin 1)), (''name'', Str ''x'')]
             = (Inr \<lparr>cr_id = Num (Fin 1), changes = 1\<rparr>, Some d')
           \<and> property (routes d' ! 0) ''name'' = Str ''x''
           \<and> property (routes d' ! 0) ''updated_at'' = CURRENT_TIMESTAMP 9000
           \<and> property (routes d' ! 0) ''bogusField'' = Undefined
           \<and> property (routes d' ! 0) ''created_by'' = Str default_created_by)"
proof -
  have allowed: "''name'' \<in> set allowedFields" "''bogusField'' \<notin> set allowedFields"
    "''created_by'' \<in> set allowedFields"
    by (simp_all add: allowedFields_def)
  have a: "\<forall>k \<in> fst ` set [(''bogusField'', Num (Fin 1))]. k \<notin> set allowedFields"
    using allowed by simp
  have b: "(\<exists>k \<in> fst ` set [(''name'', Str ''x'')]. k \<in> set allowedFields)
           \<and> (\<forall>r \<in> set (routes one_route_db). \<not> sql_eq (property r ''id'') (bind (Num (Fin 99))))"
    using allowed by (simp add: one_route_db_def stored_spec_route_not_null sql_eq_def)
  have 1: "updateRouteInDB (Some one_route_db) 9000 (Num (Fin 1)) [(''bogusField'', Num (Fin 1))]
       = (Inl (ValidationError NoValidUpdateFields), Some one_route_db)"
    using C4_route_update [of one_route_db 9000 "Num (Fin 1)" "[(''bogusField'', Num (Fin 1))]",
        THEN conjunct2, THEN conjunct1] a
    by (rule mp)
  have 2: "updateRouteInDB (Some one_route_db) 9000 (Num (Fin 99)) [(''name'', Str ''x'')]
       = (Inr \<lparr>cr_id = Num (Fin 99), changes = 0\<rparr>, Some one_route_db)"
    using C4_route_update [of one_route_db 9000 "Num (Fin 99)" "[(''name'', Str ''x'')]",
        THEN conjunct2, THEN conjunct2, THEN conjunct1] b
    by (rule mp)
  obtain d' where u: "updateRouteInDB (Some one_route_db) 9000 (Num (Fin 1))
               [(''bogusField'', Num (Fin 1)), (''name'', Str ''x'')]
             = (Inr \<lparr>cr_id = Num (Fin 1), changes = 1\<rparr>, Some d')"
    using rename_spec_route by blast
  have i: "0 < length (routes one_route_db)"
    and r0: "routes one_route_db ! 0 = stored_spec_route"
    by (simp_all add: one_route_db_def)
  have hit: "sql_eq (property (routes one_route_db ! 0) ''id'') (bind (Num (Fin 1)))"
    by (simp add: r0 stored_spec_route_not_null sql_eq_def)
  note rows = C4_route_update [of one_route_db 9000 "Num (Fin 1)"
      "[(''bogusField'', Num (Fin 1)), (''name'', Str ''x'')]",
      THEN conjunct2, THEN conjunct2, THEN conjunct2, rule_format, OF u,
      THEN conjunct2, THEN conjunct2, THEN conjunct2, rule_format, OF i]
  have cols: "property (routes d' ! 0) c
                 = (if c = ''updated_at'' then CURRENT_TIMESTAMP 9000
                    else if c \<in> set allowedFields
                            \<and> c \<in> fst ` set [(''bogusField'', Num (Fin 1)), (''name'', Str ''x'')]
                    then bind (property [(''bogusField'', Num (Fin 1)), (''name'', Str ''x'')] c)
                    else property (routes one_route_db ! 0) c)" for c
    using rows hit by (simp only: if_True)
  have nm: "property [(''bogusField'', Num (Fin 1)), (''name'', Str ''x'')] ''name'' = Str ''x''"
    by (simp add: property_def)
  have "property (routes d' ! 0) ''name'' = Str ''x''"
    "property (routes d' ! 0) ''updated_at'' = CURRENT_TIMESTAMP 9000"
    "property (routes d' ! 0) ''bogusField'' = Undefined"
    "property (routes d' ! 0) ''created_by'' = Str default_created_by"
    by (simp_all add: cols allowed r0 stored_spec_route_not_null nm)
  with 1 2 u show ?thesis by (simp add: created_spec_route_eq)
qed

subsection \<open>Search\<close>

lemma search_page_eq:
  "search_page like JSON_parse d kw pageSize pg =
     (Inr \<lparr>sr_routes = map (search_item JSON_parse)
                         (limit_offset pageSize ((pg - 1) * pageSize)
                            (order_by_created_desc (matching_routes like d kw))),
            sr_total = length (matching_routes like d kw), sr_page = pg, sr_limit = pageSize\<rparr>,
      if matching_routes like d kw = [] then [CountQuery (like_pattern kw)]
      else [CountQuery (like_pattern kw), DataQuery (like_pattern kw) pageSize ((pg - 1) * pageSize)])"
  by (simp add: search_page_def searchRoutesFromDB_def Let_def run_count_def run_data_def
      matching_routes_def order_by_created_desc_def limit_offset_def)

lemma page_rows_search_page:
  "page_rows (search_page like JSON_parse d kw pageSize pg) =
     map (search_item JSON_parse)
       (limit_offset pageSize ((pg - 1) * pageSize) (order_by_created_desc (matching_routes like d kw)))"
  by (simp add: search_page_eq page_rows_def)

lemma length_order_by_created_desc: "length (order_by_created_desc rows) = length rows"
  by (simp add: order_by_created_desc_def)

lemma sum_page_lengths:
  "(\<Sum>k < m. length (take n (drop (k * n) xs))) = min (m * n) (length xs)"
  by (induction m) (auto simp: min_def)

lemma page_count_covers:
  assumes "0 < (n::nat)"
  shows "rowCount \<le> ((rowCount + n - 1) div n) * n"
proof -
  have "rowCount + n - 1 = ((rowCount + n - 1) div n) * n + (rowCount + n - 1) mod n"
    by simp
  moreover have "(rowCount + n - 1) mod n < n"
    using assms by simp
  ultimately show ?thesis by linarith
qed

lemma limit_offset_page:
  assumes "0 < pageSize"
  shows "limit_offset pageSize ((int (Suc k) - 1) * pageSize) xs = take (nat pageSize) (drop (k * nat pageSize) xs)"
proof -
  have "nat (int k * pageSize) = k * nat pageSize"
    using assms by (simp add: nat_mult_distrib)
  with assms show ?thesis by (simp add: limit_offset_def)
qed

lemma sum_pages:
  assumes "0 < pageSize"
  shows "(\<Sum>p = 1..m. length (page_rows (search_page like JSON_parse d kw pageSize (int p))))
         = min (m * nat pageSize) (length (matching_routes like d kw))"
proof -
  have "(\<Sum>p = 1..m. length (page_rows (search_page like JSON_parse d kw pageSize (int p))))
        = (\<Sum>k < m. length (page_rows (search_page like JSON_parse d kw pageSize (int (Suc k)))))"
    by (rule sum.reindex_bij_witness [of _ Suc "\<lambda>p. p - 1"]) auto
  also have "\<dots> = (\<Sum>k < m. length (take (nat pageSize) (drop (k * nat pageSize)
                        (order_by_created_desc (matching_routes like d kw)))))"
    unfolding page_rows_search_page limit_offset_page [OF assms] by simp
  also have "\<dots> = min (m * nat pageSize) (length (matching_routes like d kw))"
    by (simp only: sum_page_lengths length_order_by_created_desc)
  finally show ?thesis .
qed

lemma page_beyond_last:
  assumes "0 < pageSize" and "int (page_count (length (matching_routes like d kw)) pageSize) < pg"
  shows "limit_offset pageSize ((pg - 1) * pageSize)
           (order_by_created_desc (matching_routes like d kw)) = []"
proof -
  let ?n = "nat pageSize" and ?len = "length (matching_routes like d kw)"
  from assms(2) have "page_count ?len pageSize \<le> nat (pg - 1)"
    by linarith
  then have "page_count ?len pageSize * ?n \<le> nat (pg - 1) * ?n"
    by (rule mult_le_mono1)
  moreover have "?len \<le> page_count ?len pageSize * ?n"
    unfolding page_count_def using assms(1) by (intro page_count_covers) simp
  moreover have "nat ((pg - 1) * pageSize) = nat (pg - 1) * ?n"
    using assms by (simp add: nat_mult_distrib)
  ultimately have "?len \<le> nat ((pg - 1) * pageSize)"
    by linarith
  with assms(1) show ?thesis
    by (simp add: limit_offset_def length_order_by_created_desc)
qed

text \<open>
  Claim C1. For every keyword, page and page size, the search issues the count query
  first, with the same pattern as the data query, and returns as \<open>total\<close> the number of
  routes that satisfy the keyword predicate, whatever the page holds; when that number
  is 0 the count query is the only statement issued and no route is returned. For a
  page size of at least 1, the rows returned over all the pages add up to \<open>total\<close>, and a
  page beyond the last returns no row while \<open>total\<close> is still the full count.
\<close>

theorem C1_search_total_and_pages:
  "(\<exists>res. search_page like JSON_parse d kw pageSize pg
            = (Inr res,
               if matching_routes like d kw = [] then [CountQuery (like_pattern kw)]
               else [CountQuery (like_pattern kw),
                     DataQuery (like_pattern kw) pageSize ((pg - 1) * pageSize)])
          \<and> sr_total res = length (matching_routes like d kw)
          \<and> sr_routes res
              = map (search_item JSON_parse)
                  (limit_offset pageSize ((pg - 1) * pageSize)
                     (order_by_created_desc (matching_routes like d kw)))
          \<and> (sr_total res = 0 \<longrightarrow> sr_routes res = []))
   \<and> (0 < pageSize
        \<longrightarrow> (\<Sum>p = 1..page_count (length (matching_routes like d kw)) pageSize.
               length (page_rows (search_page like JSON_parse d kw pageSize (int p))))
             = length (matching_routes like d kw)
           \<and> (int (page_count (length (matching_routes like d kw)) pageSize) < pg
                \<longrightarrow> (\<exists>res. fst (search_page like JSON_parse d kw pageSize pg) = Inr res
                          \<and> sr_routes res = []
                          \<and> sr_total res = length (matching_routes like d kw))))"
proof (intro conjI impI)
  show "\<exists>res. search_page like JSON_parse d kw pageSize pg
            = (Inr res,
               if matching_routes like d kw = [] then [CountQuery (like_pattern kw)]
               else [CountQuery (like_pattern kw),
                     DataQuery (like_pattern kw) pageSize ((pg - 1) * pageSize)])
          \<and> sr_total res = length (matching_routes like d kw)
          \<and> sr_routes res
              = map (search_item JSON_parse)
                  (limit_offset pageSize ((pg - 1) * pageSize)
                     (order_by_created_desc (matching_routes like d kw)))
          \<and> (sr_total res = 0 \<longrightarrow> sr_routes res = [])"
    by (simp add: search_page_eq limit_offset_def order_by_created_desc_def)
next
  assume pos: "0 < pageSize"
  have "length (matching_routes like d kw)
        \<le> page_count (length (matching_routes like d kw)) pageSize * nat pageSize"
    unfolding page_count_def using pos by (intro page_count_covers) simp
  with sum_pages [OF pos, where m = "page_count (length (matching_routes like d kw)) pageSize"
      and like = like and JSON_parse = JSON_parse and d = d and kw = kw]
  show "(\<Sum>p = 1..page_count (length (matching_routes like d kw)) pageSize.
               length (page_rows (search_page like JSON_parse d kw pageSize (int p))))
             = length (matching_routes like d kw)"
    by (simp only: min_absorb2)
next
  assume pos: "0 < pageSize"
    and beyond: "int (page_count (length (matching_routes like d kw)) pageSize) < pg"
  show "\<exists>res. fst (search_page like JSON_parse d kw pageSize pg) = Inr res
                          \<and> sr_routes res = []
                          \<and> sr_total res = length (matching_routes like d kw)"
    by (simp add: search_page_eq page_beyond_last [OF pos beyond])
qed

lemma like_pattern_examples:
  "like_pattern ''a'' = Some ''%a%''" "like_pattern ''zzz'' = Some ''%zzz%''"
  "like_pattern ideographic_space = None" "like_pattern '' '' = None"
  by (simp_all add: like_pattern_def trim_def white_space_def strip_leading.simps
      ideographic_space_def)

lemma searched_columns:
  "property stored_spec_route ''description'' = Str []"
  "property stored_spec_route ''city'' = Str []"
  "property stored_spec_route ''district'' = Str []"
  by (simp_all add: stored_spec_route_def property_def)

lemma to_upper_examples:
  "to_upper CHR ''a'' = CHR ''A''" "to_upper CHR ''z'' = CHR ''Z''"
  "to_upper CHR ''A'' = CHR ''A''" "to_upper CHR ''B'' = CHR ''B''"
  "to_upper CHR ''l'' = CHR ''L''" "to_upper CHR ''p'' = CHR ''P''"
  "to_upper CHR ''h'' = CHR ''H''" "to_upper CHR ''r'' = CHR ''R''"
  "to_upper CHR ''i'' = CHR ''I''" "to_upper CHR ''d'' = CHR ''D''"
  "to_upper CHR ''g'' = CHR ''G''" "to_upper CHR ''e'' = CHR ''E''"
  "to_upper (CHR 0xE8) = CHR 0xE8" "to_upper (CHR 0xB7) = CHR 0xB7"
  "to_upper (CHR 0xAF) = CHR 0xAF" "to_upper (CHR 0xE7) = CHR 0xE7"
  "to_upper (CHR 0xBA) = CHR 0xBA" "to_upper (CHR 0xBF) = CHR 0xBF"
  "to_upper (CHR 0xA7) = CHR 0xA7" "to_upper (CHR 0x84) = CHR 0x84"
  "to_upper (CHR 0xE5) = CHR 0xE5" "to_upper (CHR 0x88) = CHR 0x88"
  "to_upper (CHR 0x92) = CHR 0x92" "to_upper (CHR 0x91) = CHR 0x91"
  "to_upper (CHR 0x98) = CHR 0x98"
  by (simp_all add: to_upper_def)

lemma where_clause_examples:
  "where_clause sqlite_like (Some ''%a%'') stored_spec_route"
  "where_clause sqlite_like (Some ''%a%'') route_alpha"
  "\<not> where_clause sqlite_like (Some ''%a%'') route_bridge"
  "\<not> where_clause sqlite_like (Some ''%zzz%'') stored_spec_route"
  "\<not> where_clause sqlite_like (Some ''%zzz%'') route_alpha"
  "\<not> where_clause sqlite_like (Some ''%zzz%'') route_bridge"
  by (simp_all add: where_clause_def route_alpha_def route_bridge_def property_update
      stored_spec_route_not_null searched_columns to_upper_examples default_created_by_def)

lemma matching_a:
  "length (matching_routes sqlite_like three_routes_db ''a'') = 2"
  by (simp add: matching_routes_def like_pattern_examples three_routes_db_def
      where_clause_examples)

lemma matching_zzz:
  "matching_routes sqlite_like three_routes_db ''zzz'' = []"
  by (simp add: matching_routes_def like_pattern_examples three_routes_db_def
      where_clause_examples)

lemma matching_ideographic_space:
  "matching_routes sqlite_like three_routes_db ideographic_space
     = [stored_spec_route, route_alpha, route_bridge]"
  by (simp add: matching_routes_def like_pattern_examples three_routes_db_def where_clause_def)

theorem C1_search_total_and_pages_witness:
  "length (matching_routes sqlite_like three_routes_db ''a'') = 2
   \<and> page_count 2 1 = 2
   \<and> (\<Sum>p = 1..2. length (page_rows
          (search_page sqlite_like sample_JSON_parse three_routes_db ''a'' 1 (int p)))) = 2
   \<and> (\<exists>res. fst (search_page sqlite_like sample_JSON_parse three_routes_db ''a'' 1 3) = Inr res
          \<and> sr_routes res = [] \<and> sr_total res = 2)
   \<and> (\<exists>res. search_page sqlite_like sample_JSON_parse three_routes_db ''zzz'' 1 1
            = (Inr res, [CountQuery (Some ''%zzz%'')])
          \<and> sr_total res = 0 \<and> sr_routes res = [])
   \<and> (\<exists>res. search_page sqlite_like sample_JSON_parse three_routes_db ideographic_space 1 1
            = (Inr res, [CountQuery None, DataQuery None 1 0])
          \<and> sr_total res = 3)"
proof -
  have pc: "page_count 2 1 = 2"
    by (simp add: page_count_def)
  have pos: "(0::int) < 1" and beyond: "int 2 < 3"
    by simp_all
  note a = C1_search_total_and_pages [of sqlite_like sample_JSON_parse three_routes_db "''a''" 1 3,
      unfolded matching_a pc]
  note z = C1_search_total_and_pages [of sqlite_like sample_JSON_parse three_routes_db "''zzz''" 1 1,
      unfolded matching_zzz like_pattern_examples, THEN conjunct1]
  from a [THEN conjunct2, rule_format, OF pos, THEN conjunct1]
  have 1: "(\<Sum>p = 1..2. length (page_rows
          (search_page sqlite_like sample_JSON_parse three_routes_db ''a'' 1 (int p)))) = 2" .
  from a [THEN conjunct2, rule_format, OF pos, THEN conjunct2, rule_format, OF beyond]
  have 2: "\<exists>res. fst (search_page sqlite_like sample_JSON_parse three_routes_db ''a'' 1 3) = Inr res
          \<and> sr_routes res = [] \<and> sr_total res = 2" .
  from z have 3: "\<exists>res. search_page sqlite_like sample_JSON_parse three_routes_db ''zzz'' 1 1
            = (Inr res, [CountQuery (Some ''%zzz%'')])
          \<and> sr_total res = 0 \<and> sr_routes res = []"
    by auto
  note w = C1_search_total_and_pages
      [of sqlite_like sample_JSON_parse three_routes_db ideographic_space 1 1,
       unfolded matching_ideographic_space like_pattern_examples, THEN conjunct1]
  from w have 4: "\<exists>res. search_page sqlite_like sample_JSON_parse three_routes_db ideographic_space 1 1
            = (Inr res, [CountQuery None, DataQuery None 1 0])
          \<and> sr_total res = 3"
    by auto
  from matching_a pc 1 2 3 4 show ?thesis by blast
qed

subsection \<open>Deleting a route\<close>

lemma save_sample_marker:
  "saveRouteMarkerToDB (Some one_route_db) 6000 (Num (Fin 1)) sample_marker
     = (Inr ((''id'', Num (Fin 1)) # (''route_id'', Num (Fin 1)) # sample_marker),
        Some marked_route_db)"
proof -
  have locals: "marker_locals (Num (Fin 1)) sample_marker =
     [(''route_id'', Num (Fin 1)),
      (''lng'', Num (Fin (1164 / 10))),
      (''lat'', Num (Fin (399 / 10))),
      (''marker_type'', Str ''important''),
      (''name'', Str ''Gate''),
      (''description'', Str []),
      (''image_url'', Str []),
      (''contact'', Str []),
      (''importance'', Num (Fin 1)),
      (''category'', Str ''other'')]"
    by (simp add: marker_locals_def sample_marker_def property_def default_to_def)
  have row: "new_row route_markers_table (Num (Fin 1)) 6000 (marker_locals (Num (Fin 1)) sample_marker)
             = stored_sample_marker"
    unfolding locals by (simp add: new_row_def route_markers_table_def col_def stored_sample_marker_def)
  have ok: "\<not> violates_not_null route_markers_table stored_sample_marker"
    by (simp add: violates_not_null_def route_markers_table_def col_def stored_sample_marker_def
        property_def)
  have req: "truthy (property sample_marker ''lng'')" "truthy (property sample_marker ''lat'')"
    "truthy (property sample_marker ''name'')"
    by (simp_all add: sample_marker_def property_def)
  have sp: "spread [(''id'', Num (Fin 1)), (''route_id'', Num (Fin 1))] sample_marker
            = (''id'', Num (Fin 1)) # (''route_id'', Num (Fin 1)) # sample_marker"
    by (simp add: spread_def sample_marker_def)
  have ins: "insert_marker one_route_db 6000 (marker_locals (Num (Fin 1)) sample_marker)
             = Inr (Num (Fin 1), marked_route_db)"
    using row ok
    by (simp add: insert_marker_def Let_def marked_route_db_def one_route_db_def)
  show ?thesis
    by (simp add: saveRouteMarkerToDB_def Let_def marker_locals_required req ins sp)
qed

lemma delete_route_markers:
  "route_markers (snd (delete_route d rid))
     = (if foreign_keys d
        then filter (\<lambda>m. \<not> list_ex (\<lambda>r. sql_eq (property m ''route_id'') (property r ''id''))
                              (filter (\<lambda>r. sql_eq (property r ''id'') (bind rid)) (routes d)))
               (route_markers d)
        else route_markers d)"
  by (simp add: delete_route_def Let_def)

text \<open>
  Claim C3, evaluated on the store as the code opens it. Route 1 has one marker;
  deleting the route reports one row affected and removes the route, and listing the
  markers of route 1 afterwards still returns the marker: \<open>deleteRouteFromDB\<close> issues
  only \<open>DELETE FROM routes\<close>, and the \<open>ON DELETE CASCADE\<close> declared in \<open>createTables\<close> is
  not enforced on a connection that never turns foreign keys on.
\<close>

theorem C3_markers_survive_delete:
  "saveRouteMarkerToDB (snd created_spec_route) 6000 (Num (Fin 1)) sample_marker
     = (Inr ((''id'', Num (Fin 1)) # (''route_id'', Num (Fin 1)) # sample_marker),
        Some marked_route_db)
   \<and> fst (deleteRouteFromDB (Some marked_route_db) (Num (Fin 1)))
       = Inr \<lparr>cr_id = Num (Fin 1), changes = 1\<rparr>
   \<and> routes (the (snd (deleteRouteFromDB (Some marked_route_db) (Num (Fin 1))))) = []
   \<and> markers_after_delete = Inr [stored_sample_marker]"
proof -
  have hit: "sql_eq (property stored_spec_route ''id'') (bind (Num (Fin 1)))"
    by (simp add: stored_spec_route_not_null sql_eq_def)
  have del: "deleteRouteFromDB (Some marked_route_db) (Num (Fin 1))
             = (Inr \<lparr>cr_id = Num (Fin 1), changes = 1\<rparr>,
                Some (marked_route_db\<lparr>routes := []\<rparr>))"
    using hit
    by (simp add: deleteRouteFromDB_def delete_route_def Let_def marked_route_db_def
        one_route_db_def)
  have m: "sql_eq (property stored_sample_marker ''route_id'') (bind (Num (Fin 1)))"
    by (simp add: stored_sample_marker_def property_def sql_eq_def)
  have lst: "getRouteMarkersFromDB (Some (marked_route_db\<lparr>routes := []\<rparr>)) (Num (Fin 1))
             = Inr [stored_sample_marker]"
    using m
    by (simp add: getRouteMarkersFromDB_def marked_route_db_def order_by_created_desc_def)
  show ?thesis
    by (simp add: created_spec_route_eq save_sample_marker del markers_after_delete_def lst)
qed

theorem C3_markers_survive_delete_witness:
  "fst (deleteRouteFromDB (Some marked_route_db) (Num (Fin 1)))
     = Inr \<lparr>cr_id = Num (Fin 1), changes = 1\<rparr>
   \<and> markers_after_delete \<noteq> Inr []"
proof -
  from C3_markers_survive_delete
  have "fst (deleteRouteFromDB (Some marked_route_db) (Num (Fin 1)))
          = Inr \<lparr>cr_id = Num (Fin 1), changes = 1\<rparr>"
    and m: "markers_after_delete = Inr [stored_sample_marker]"
    by blast+
  then show ?thesis by (simp add: m)
qed

text \<open>
  What the declaration aims at: on a connection that enforces foreign keys, the same
  operation leaves no marker of the deleted route behind.
\<close>

lemma cascade_when_foreign_keys_on:
  assumes "foreign_keys d"
    and "\<exists>r \<in> set (routes d). sql_eq (property r ''id'') (bind rid)"
  shows "getRouteMarkersFromDB (snd (deleteRouteFromDB (Some d) rid)) rid = Inr []"
proof -
  from assms(2) obtain r where r: "r \<in> set (routes d)" "sql_eq (property r ''id'') (bind rid)"
    by blast
  have "\<not> sql_eq (property m ''route_id'') (bind rid)"
    if "m \<in> set (route_markers (snd (delete_route d rid)))" for m
  proof
    assume "sql_eq (property m ''route_id'') (bind rid)"
    with r have "sql_eq (property m ''route_id'') (property r ''id'')"
      by (auto simp: sql_eq_def)
    with r have "list_ex (\<lambda>r. sql_eq (property m ''route_id'') (property r ''id''))
                   (filter (\<lambda>r. sql_eq (property r ''id'') (bind rid)) (routes d))"
      by (auto simp: list_ex_iff)
    with that assms(1) show False
      by (simp add: delete_route_markers)
  qed
  then have "filter (\<lambda>m. sql_eq (property m ''route_id'') (bind rid))
               (route_markers (snd (delete_route d rid))) = []"
    by (simp add: filter_empty_conv)
  then show ?thesis
    by (simp add: deleteRouteFromDB_def getRouteMarkersFromDB_def order_by_created_desc_def
        case_prod_beta)
qed

end
